theory Spec2Isabelle
  imports Main "HOL-Library.AList"
begin

section \<open>JSON values and JavaScript objects\<close>

text \<open>
  Every value the application keeps is a JSON value: it is written with
  \<^verbatim>\<open>JSON.stringify\<close> and read back with \<^verbatim>\<open>JSON.parse\<close>.  An object is the list of
  its own enumerable properties in insertion order; \<^verbatim>\<open>undefined\<close> is \<open>None\<close> of
  \<open>json option\<close>.  Numbers are integers here: no function below computes with a
  stored number.  Properties inherited from \<^verbatim>\<open>Object.prototype\<close> are written out where
  a function reads a property under a name its caller chooses.

  The list of an object keeps the order in which its keys were created.  JavaScript
  enumerates the keys that are array indices first, in ascending order, and the other keys
  after them in that order of creation: \<open>enumerated\<close> below, which \<^verbatim>\<open>Object.values\<close> follows.
  What is read under a key does not depend on the order.

  A text is a list of UTF-16 code units below 256, the characters of ASCII and Latin-1:
  Isabelle's \<open>char\<close>.
\<close>

datatype json =
    JNull
  | JBool bool
  | JNum int
  | JStr string
  | JArr "json list"
  | JObj "(string \<times> json) list"

type_synonym obj = "(string \<times> json) list"

datatype error = TypeError | RangeError | SyntaxError | InvalidDataFormat | FailedToSave | ReadError

text \<open>Truthiness, as \<^verbatim>\<open>if (x)\<close>, \<^verbatim>\<open>!x\<close> and \<^verbatim>\<open>x || y\<close> test it.\<close>

fun truthy :: "json \<Rightarrow> bool" where
  "truthy JNull = False"
| "truthy (JBool b) = b"
| "truthy (JNum n) = (n \<noteq> 0)"
| "truthy (JStr s) = (s \<noteq> [])"
| "truthy (JArr xs) = True"
| "truthy (JObj kvs) = True"

fun otruthy :: "json option \<Rightarrow> bool" where
  "otruthy None = False"
| "otruthy (Some v) = truthy v"

text \<open>\<^verbatim>\<open>x || d\<close> on a value that may be undefined.\<close>

fun orElse :: "json option \<Rightarrow> json \<Rightarrow> json" where
  "orElse None d = d"
| "orElse (Some v) d = (if truthy v then v else d)"

text \<open>Primitive values are compared by value (\<^verbatim>\<open>===\<close>, \<^verbatim>\<open>includes\<close>, a \<^verbatim>\<open>Set\<close>); two parsed
  arrays or objects are never the same reference.\<close>

fun isPrim :: "json \<Rightarrow> bool" where
  "isPrim (JArr xs) = False"
| "isPrim (JObj kvs) = False"
| "isPrim v = True"


text \<open>Decimal digits of an array index.\<close>

fun dec :: "nat \<Rightarrow> string" where
  "dec n = (if n < 10 then [''0123456789'' ! n] else dec (n div 10) @ [''0123456789'' ! (n mod 10)])"

declare dec.simps [simp del]

text \<open>The own enumerable properties that a spread \<^verbatim>\<open>{...x}\<close> copies: those of an object,
  the elements of an array under their indices, the characters of a string; nothing for
  \<^verbatim>\<open>null\<close>, a number or a boolean.\<close>

fun ownProps :: "json \<Rightarrow> obj" where
  "ownProps (JObj kvs) = kvs"
| "ownProps (JArr xs) = zip (map dec [0..<length xs]) xs"
| "ownProps (JStr s) = zip (map dec [0..<length s]) (map (\<lambda>c. JStr [c]) s)"
| "ownProps v = []"

fun oprops :: "json option \<Rightarrow> obj" where
  "oprops None = []"
| "oprops (Some v) = ownProps v"

text \<open>Reading \<^verbatim>\<open>x.k\<close> or \<^verbatim>\<open>x[k]\<close> of a value that is not \<^verbatim>\<open>null\<close>.\<close>

definition getProp :: "json \<Rightarrow> string \<Rightarrow> json option" where
  "getProp v k = map_of (ownProps v) k"

text \<open>\<^verbatim>\<open>{...target, ...src}\<close>: for each own key of the source in order, the target
  receives the source's value for that key.\<close>

definition spread :: "obj \<Rightarrow> obj \<Rightarrow> obj" where
  "spread target src =
     fold (\<lambda>k acc. case map_of src k of Some v \<Rightarrow> AList.update k v acc | None \<Rightarrow> acc)
       (map fst src) target"

section \<open>storage.js\<close>

definition defaultWeeklyPlan :: json where
  "defaultWeeklyPlan = JObj
     [(''Monday'', JArr []), (''Tuesday'', JArr []), (''Wednesday'', JArr []),
      (''Thursday'', JArr []), (''Friday'', JArr []), (''Saturday'', JArr []),
      (''Sunday'', JArr [])]"

definition defaultSettings :: json where
  "defaultSettings = JObj
     [(''notificationsEnabled'', JBool False), (''notifyMeals'', JBool True),
      (''notifyCleaning'', JBool True), (''notifyShopping'', JBool True),
      (''lastExport'', JNull)]"

definition defaultData :: json where
  "defaultData = JObj
     [(''meals'', JArr []), (''weeklyPlan'', defaultWeeklyPlan), (''shoppingList'', JArr []),
      (''householdItems'', JArr []), (''cleaningTasks'', JArr []),
      (''maintenanceTasks'', JArr []), (''settings'', defaultSettings)]"

text \<open>
  The state the module works on.  \<open>item\<close> is what \<^verbatim>\<open>localStorage\<close> holds under
  \<^verbatim>\<open>STORAGE_KEY\<close>: nothing, a text \<^verbatim>\<open>JSON.parse\<close> rejects (the empty text among them), or
  the text of a JSON value.  \<open>defaults\<close> is the object bound to the module constant
  \<^verbatim>\<open>defaultData\<close>: \<^verbatim>\<open>loadData\<close> hands out its arrays and nested objects by reference
  (a spread copies one level), so the functions that \<^verbatim>\<open>push\<close> to or assign into what
  \<^verbatim>\<open>getData\<close> returned write into it.  \<open>setItem\<close> says how the browser answers
  \<^verbatim>\<open>localStorage.setItem\<close> for a document.  \<open>events\<close> records the writes and what the
  user is shown (\<^verbatim>\<open>console.error\<close> is not recorded).  \<open>planProto\<close> is the prototype of the
  object \<^verbatim>\<open>defaultData.weeklyPlan\<close>: \<^verbatim>\<open>Object.prototype\<close> (\<open>None\<close>) until the planner
  assigns an array of meal ids to \<^verbatim>\<open>plan['__proto__']\<close> of that very object.
\<close>

datatype stored = Unparseable | Parsed json

datatype outcome = Accepted | QuotaExceeded | OtherFailure

datatype event = SetItem json | RemoveItem | Success string | Alert string

record world =
  item :: "stored option"
  defaults :: json
  setItem :: "json \<Rightarrow> outcome"
  events :: "event list"
  planProto :: "string list option"

text \<open>A page that has just loaded the module, over a given content of the store.\<close>

definition freshPage :: "stored option \<Rightarrow> (json \<Rightarrow> outcome) \<Rightarrow> world" where
  "freshPage st acc =
     \<lparr>item = st, defaults = defaultData, setItem = acc, events = [], planProto = None\<rparr>"

text \<open>The document \<^verbatim>\<open>loadData\<close> merges: the store holds a text, it parses, and reading
  \<^verbatim>\<open>data.weeklyPlan\<close> does not throw (it does on \<^verbatim>\<open>null\<close>).  Otherwise \<^verbatim>\<open>loadData\<close>
  returns \<^verbatim>\<open>{ ...defaultData }\<close>.\<close>

definition parsedDoc :: "world \<Rightarrow> json option" where
  "parsedDoc w = (case item w of
       Some (Parsed d) \<Rightarrow> (if d = JNull then None else Some d)
     | Some Unparseable \<Rightarrow> None
     | None \<Rightarrow> None)"

definition loadData :: "world \<Rightarrow> json" where
  "loadData w = (case parsedDoc w of
       None \<Rightarrow> JObj (spread [] (ownProps (defaults w)))
     | Some d \<Rightarrow> JObj
         (AList.update ''settings''
            (JObj (spread (spread [] (oprops (getProp (defaults w) ''settings'')))
                     (oprops (getProp d ''settings''))))
         (AList.update ''weeklyPlan''
            (JObj (spread (spread [] (oprops (getProp (defaults w) ''weeklyPlan'')))
                     (oprops (getProp d ''weeklyPlan''))))
         (spread (spread [] (ownProps (defaults w))) (ownProps d)))))"

definition saveData :: "json \<Rightarrow> world \<Rightarrow> bool \<times> world" where
  "saveData d w = (case setItem w d of
       Accepted \<Rightarrow> (True, w\<lparr>item := Some (Parsed d), events := events w @ [SetItem d]\<rparr>)
     | QuotaExceeded \<Rightarrow>
         (False, w\<lparr>events := events w @
            [Alert ''Storage quota exceeded. Consider exporting your data and clearing old items.'']\<rparr>)
     | OtherFailure \<Rightarrow> (False, w))"

text \<open>\<^verbatim>\<open>getData\<close> and \<^verbatim>\<open>updateData\<close>.  The modules call them with the names of sections; what
  they would do with a name that every object inherits from \<^verbatim>\<open>Object.prototype\<close> is not
  followed here.\<close>

definition getData :: "string \<Rightarrow> world \<Rightarrow> json option" where
  "getData section w = getProp (loadData w) section"

definition updateData :: "string \<Rightarrow> json \<Rightarrow> world \<Rightarrow> bool \<times> world" where
  "updateData section v w = saveData (JObj (AList.update section v (ownProps (loadData w)))) w"

text \<open>\<^verbatim>\<open>importData\<close>, from the moment the file reader answers: with an error, or with the
  file's text.\<close>

datatype upload = Unreadable | Content stored

definition importData :: "upload \<Rightarrow> world \<Rightarrow> (error + bool) \<times> world" where
  "importData f w = (case f of
       Unreadable \<Rightarrow> (Inl ReadError, w)
     | Content Unparseable \<Rightarrow> (Inl SyntaxError, w)
     | Content (Parsed d) \<Rightarrow>
         (if \<not> truthy d \<or> isPrim d then (Inl InvalidDataFormat, w)
          else
            (let merged = JObj
               (AList.update ''settings''
                  (JObj (spread (spread [] (oprops (getProp (defaults w) ''settings'')))
                           (oprops (getProp d ''settings''))))
               (AList.update ''weeklyPlan''
                  (JObj (spread (spread [] (oprops (getProp (defaults w) ''weeklyPlan'')))
                           (oprops (getProp d ''weeklyPlan''))))
               (spread (spread [] (ownProps (defaults w))) (ownProps d))))
             in case saveData merged w of
                  (True, w') \<Rightarrow> (Inr True, w')
                | (False, w') \<Rightarrow> (Inl FailedToSave, w'))))"

text \<open>\<^verbatim>\<open>clearAllData\<close>: unless called with \<^verbatim>\<open>confirmed\<close>, the user answers up to two
  confirmation dialogs.\<close>

definition clearAllData :: "bool \<Rightarrow> bool \<Rightarrow> bool \<Rightarrow> world \<Rightarrow> bool \<times> world" where
  "clearAllData confirmed answer1 answer2 w =
     (if \<not> confirmed \<and> \<not> answer1 then (False, w)
      else if \<not> confirmed \<and> \<not> answer2 then (False, w)
      else (True, w\<lparr>item := None, events := events w @ [RemoveItem]\<rparr>))"

text \<open>
  What \<^verbatim>\<open>loadData()[section]\<close> is when the section is read for mutation.  It is the very
  object \<^verbatim>\<open>defaultData\<close> holds when \<^verbatim>\<open>loadData\<close> returned \<^verbatim>\<open>{ ...defaultData }\<close>, or when
  the parsed document has no such key and the section is not one of the two that
  \<^verbatim>\<open>loadData\<close> rebuilds.  A function that then changes the array it got changes
  \<^verbatim>\<open>defaultData\<close> with it: \<open>writeDefault\<close>.
\<close>

definition sectionShared :: "string \<Rightarrow> world \<Rightarrow> bool" where
  "sectionShared section w = (case parsedDoc w of
       None \<Rightarrow> True
     | Some d \<Rightarrow> section \<noteq> ''weeklyPlan'' \<and> section \<noteq> ''settings''
                 \<and> map_of (ownProps d) section = None)"

definition listShared :: "string \<Rightarrow> world \<Rightarrow> bool" where
  "listShared section w = (sectionShared section w \<and> otruthy (getData section w))"

definition writeDefault :: "string \<Rightarrow> json \<Rightarrow> world \<Rightarrow> world" where
  "writeDefault section v w = w\<lparr>defaults := JObj (AList.update section v (ownProps (defaults w)))\<rparr>"

definition mutated :: "string \<Rightarrow> json \<Rightarrow> world \<Rightarrow> world" where
  "mutated section v w = (if listShared section w then writeDefault section v w else w)"

definition showSuccess :: "string \<Rightarrow> world \<Rightarrow> world" where
  "showSuccess msg w = w\<lparr>events := events w @ [Success msg]\<rparr>"

text \<open>\<^verbatim>\<open>xs.findIndex(m => m.id === id)\<close>, also \<^verbatim>\<open>xs.find\<close>: reading \<^verbatim>\<open>m.id\<close> throws on a
  \<^verbatim>\<open>null\<close> element.\<close>

fun findById :: "string \<Rightarrow> json list \<Rightarrow> error + nat option" where
  "findById i [] = Inr None"
| "findById i (x # xs) =
     (if x = JNull then Inl TypeError
      else if getProp x ''id'' = Some (JStr i) then Inr (Some 0)
      else (case findById i xs of
              Inl e \<Rightarrow> Inl e
            | Inr None \<Rightarrow> Inr None
            | Inr (Some n) \<Rightarrow> Inr (Some (Suc n))))"

section \<open>meals.js\<close>

definition getMeals :: "world \<Rightarrow> json" where
  "getMeals w = orElse (getData ''meals'' w) (JArr [])"

text \<open>\<^verbatim>\<open>generateId()\<close> and \<^verbatim>\<open>new Date().toISOString()\<close> are given by the caller of the
  model: \<open>newId\<close> and \<open>now\<close>.\<close>

definition addMeal :: "string \<Rightarrow> string \<Rightarrow> json \<Rightarrow> world \<Rightarrow> (error + json) \<times> world" where
  "addMeal newId now mealData w =
     (let newMeal = JObj
            (AList.update ''lastMade'' JNull
            (AList.update ''dateAdded'' (JStr now)
            (spread [(''id'', JStr newId)] (ownProps mealData))))
      in case getMeals w of
           JArr xs \<Rightarrow>
             (let w1 = mutated ''meals'' (JArr (xs @ [newMeal])) w;
                  w2 = snd (updateData ''meals'' (JArr (xs @ [newMeal])) w1)
              in (Inr newMeal, showSuccess ''Meal added successfully!'' w2))
         | _ \<Rightarrow> (Inl TypeError, w))"

definition updateMeal :: "string \<Rightarrow> json \<Rightarrow> world \<Rightarrow> (error + json) \<times> world" where
  "updateMeal mealId mealData w =
     (case getMeals w of
        JArr xs \<Rightarrow>
          (case findById mealId xs of
             Inl e \<Rightarrow> (Inl e, w)
           | Inr None \<Rightarrow> (Inr JNull, w)
           | Inr (Some i) \<Rightarrow>
               (let m = JObj (spread (spread [] (ownProps (xs ! i))) (ownProps mealData));
                    w1 = mutated ''meals'' (JArr (xs[i := m])) w;
                    w2 = snd (updateData ''meals'' (JArr (xs[i := m])) w1)
                in (Inr m, showSuccess ''Meal updated!'' w2)))
      | _ \<Rightarrow> (Inl TypeError, w))"

text \<open>
  Strings: \<^verbatim>\<open>toLowerCase\<close>, \<^verbatim>\<open>s.includes(t)\<close>, \<^verbatim>\<open>join\<close> and the string a template literal or
  \<^verbatim>\<open>join\<close> makes of a value.  \<^verbatim>\<open>toLowerCase\<close> follows Unicode: of the characters below 256
  the capital letters \<^verbatim>\<open>A\<close> to \<^verbatim>\<open>Z\<close> (codes 65 to 90), and those of Latin-1 from \<^verbatim>\<open>U+00C0\<close> to
  \<^verbatim>\<open>U+00D6\<close> and from \<^verbatim>\<open>U+00D8\<close> to \<^verbatim>\<open>U+00DE\<close>, have a lower-case form, 32 code points
  above; every other one is its own lower case, and the mapping of a text is that of its
  characters.
\<close>

definition upperChars :: string where
  "upperChars = ''ABCDEFGHIJKLMNOPQRSTUVWXYZ'' @
     [CHR 0xC0, CHR 0xC1, CHR 0xC2, CHR 0xC3, CHR 0xC4, CHR 0xC5, CHR 0xC6, CHR 0xC7,
      CHR 0xC8, CHR 0xC9, CHR 0xCA, CHR 0xCB, CHR 0xCC, CHR 0xCD, CHR 0xCE, CHR 0xCF,
      CHR 0xD0, CHR 0xD1, CHR 0xD2, CHR 0xD3, CHR 0xD4, CHR 0xD5, CHR 0xD6,
      CHR 0xD8, CHR 0xD9, CHR 0xDA, CHR 0xDB, CHR 0xDC, CHR 0xDD, CHR 0xDE]"

definition lowerChars :: string where
  "lowerChars = ''abcdefghijklmnopqrstuvwxyz'' @
     [CHR 0xE0, CHR 0xE1, CHR 0xE2, CHR 0xE3, CHR 0xE4, CHR 0xE5, CHR 0xE6, CHR 0xE7,
      CHR 0xE8, CHR 0xE9, CHR 0xEA, CHR 0xEB, CHR 0xEC, CHR 0xED, CHR 0xEE, CHR 0xEF,
      CHR 0xF0, CHR 0xF1, CHR 0xF2, CHR 0xF3, CHR 0xF4, CHR 0xF5, CHR 0xF6,
      CHR 0xF8, CHR 0xF9, CHR 0xFA, CHR 0xFB, CHR 0xFC, CHR 0xFD, CHR 0xFE]"

definition lowerChar :: "char \<Rightarrow> char" where
  "lowerChar c = (case map_of (zip upperChars lowerChars) c of Some l \<Rightarrow> l | None \<Rightarrow> c)"

definition toLowerCase :: "string \<Rightarrow> string" where
  "toLowerCase s = map lowerChar s"

fun startsWith :: "string \<Rightarrow> string \<Rightarrow> bool" where
  "startsWith [] s = True"
| "startsWith (c # t) [] = False"
| "startsWith (c # t) (d # s) = (c = d \<and> startsWith t s)"

fun strIncludes :: "string \<Rightarrow> string \<Rightarrow> bool" where
  "strIncludes [] t = (t = [])"
| "strIncludes (c # s) t = (startsWith t (c # s) \<or> strIncludes s t)"

fun joinWith :: "string \<Rightarrow> string list \<Rightarrow> string" where
  "joinWith sep [] = []"
| "joinWith sep [x] = x"
| "joinWith sep (x # y # ys) = x @ sep @ joinWith sep (y # ys)"

fun toStr :: "json \<Rightarrow> string" where
  "toStr JNull = ''null''"
| "toStr (JBool b) = (if b then ''true'' else ''false'')"
| "toStr (JNum n) = (if n < 0 then ''-'' @ dec (nat (- n)) else dec (nat n))"
| "toStr (JStr s) = s"
| "toStr (JArr xs) = joinWith '','' (map (\<lambda>x. if x = JNull then [] else toStr x) xs)"
| "toStr (JObj kvs) = ''[object Object]''"

fun otoStr :: "json option \<Rightarrow> string" where
  "otoStr None = ''undefined''"
| "otoStr (Some v) = toStr v"

definition arrayJoin :: "string \<Rightarrow> json list \<Rightarrow> string" where
  "arrayJoin sep xs = joinWith sep (map (\<lambda>x. if x = JNull then [] else toStr x) xs)"

text \<open>\<^verbatim>\<open>x.includes(d)\<close> for a string \<open>d\<close>: membership in an array, substring of a string;
  any other receiver has no such method.\<close>

fun includesStr :: "json option \<Rightarrow> string \<Rightarrow> error + bool" where
  "includesStr (Some (JArr xs)) d = Inr (JStr d \<in> set xs)"
| "includesStr (Some (JStr s)) d = Inr (strIncludes s d)"
| "includesStr x d = Inl TypeError"

text \<open>\<^verbatim>\<open>ds.every(d => x.includes(d))\<close> and
  \<^verbatim>\<open>xs.some(i => i.toLowerCase().includes(t))\<close>, stopping where the loops stop.\<close>

fun everyIncluded :: "json option \<Rightarrow> string list \<Rightarrow> error + bool" where
  "everyIncluded x [] = Inr True"
| "everyIncluded x (d # ds) =
     (case includesStr x d of
        Inl e \<Rightarrow> Inl e
      | Inr False \<Rightarrow> Inr False
      | Inr True \<Rightarrow> everyIncluded x ds)"

fun someLowerIncludes :: "json list \<Rightarrow> string \<Rightarrow> error + bool" where
  "someLowerIncludes [] t = Inr False"
| "someLowerIncludes (JStr s # xs) t =
     (if strIncludes (toLowerCase s) t then Inr True else someLowerIncludes xs t)"
| "someLowerIncludes (x # xs) t = Inl TypeError"

record filters =
  ftype :: "string option"
  fdietary :: "string list option"
  fingredient :: "string option"
  fsearch :: "string option"

definition typeFails :: "filters \<Rightarrow> json \<Rightarrow> error + bool" where
  "typeFails f meal = (case ftype f of
       None \<Rightarrow> Inr False
     | Some t \<Rightarrow>
         (if t = [] \<or> t = ''all'' then Inr False
          else if meal = JNull then Inl TypeError
          else Inr (getProp meal ''type'' \<noteq> Some (JStr t))))"

definition dietaryFails :: "filters \<Rightarrow> json \<Rightarrow> error + bool" where
  "dietaryFails f meal = (case fdietary f of
       None \<Rightarrow> Inr False
     | Some ds \<Rightarrow>
         (if ds = [] then Inr False
          else if meal = JNull then Inl TypeError
          else (case everyIncluded (getProp meal ''dietary'') ds of
                  Inl e \<Rightarrow> Inl e
                | Inr b \<Rightarrow> Inr (\<not> b))))"

definition ingredientFails :: "filters \<Rightarrow> json \<Rightarrow> error + bool" where
  "ingredientFails f meal = (case fingredient f of
       None \<Rightarrow> Inr False
     | Some t \<Rightarrow>
         (if t = [] then Inr False
          else if meal = JNull then Inl TypeError
          else (case getProp meal ''mainIngredients'' of
                  Some (JArr xs) \<Rightarrow>
                    (case someLowerIncludes xs (toLowerCase t) of
                       Inl e \<Rightarrow> Inl e
                     | Inr b \<Rightarrow> Inr (\<not> b))
                | _ \<Rightarrow> Inl TypeError)))"

definition searchFails :: "filters \<Rightarrow> json \<Rightarrow> error + bool" where
  "searchFails f meal = (case fsearch f of
       None \<Rightarrow> Inr False
     | Some t \<Rightarrow>
         (if t = [] then Inr False
          else if meal = JNull then Inl TypeError
          else (case getProp meal ''ingredients'' of
                  Some (JArr xs) \<Rightarrow>
                    Inr (\<not> strIncludes
                           (toLowerCase (otoStr (getProp meal ''title'') @ '' '' @ arrayJoin '' '' xs))
                           (toLowerCase t))
                | _ \<Rightarrow> Inl TypeError)))"

text \<open>The callback of \<^verbatim>\<open>meals.filter\<close>: the four tests in the source's order, the first
  that fails returns \<^verbatim>\<open>false\<close>.\<close>

definition keepMeal :: "filters \<Rightarrow> json \<Rightarrow> error + bool" where
  "keepMeal f meal =
     (case typeFails f meal of Inl e \<Rightarrow> Inl e | Inr True \<Rightarrow> Inr False | Inr False \<Rightarrow>
     (case dietaryFails f meal of Inl e \<Rightarrow> Inl e | Inr True \<Rightarrow> Inr False | Inr False \<Rightarrow>
     (case ingredientFails f meal of Inl e \<Rightarrow> Inl e | Inr True \<Rightarrow> Inr False | Inr False \<Rightarrow>
     (case searchFails f meal of Inl e \<Rightarrow> Inl e | Inr True \<Rightarrow> Inr False | Inr False \<Rightarrow>
        Inr True))))"

fun filterM :: "(json \<Rightarrow> error + bool) \<Rightarrow> json list \<Rightarrow> error + json list" where
  "filterM p [] = Inr []"
| "filterM p (x # xs) =
     (case p x of
        Inl e \<Rightarrow> Inl e
      | Inr b \<Rightarrow>
          (case filterM p xs of
             Inl e \<Rightarrow> Inl e
           | Inr ys \<Rightarrow> Inr (if b then x # ys else ys)))"

definition filterMeals :: "filters \<Rightarrow> world \<Rightarrow> error + json list" where
  "filterMeals f w = (case getMeals w of
       JArr xs \<Rightarrow> filterM (keepMeal f) xs
     | _ \<Rightarrow> Inl TypeError)"

section \<open>Dates\<close>

text \<open>
  A \<^verbatim>\<open>Date\<close> holds a time value, milliseconds since the epoch in UTC, or \<^verbatim>\<open>NaN\<close>
  (\<open>None\<close>).  The day and year arithmetic is ECMAScript's.  \<^verbatim>\<open>getDate\<close> and
  \<^verbatim>\<open>setDate\<close> work in local time, \<^verbatim>\<open>toISOString\<close> and the parsing of a date-only
  text \<^verbatim>\<open>YYYY-MM-DD\<close> in UTC.  The environment gives the local time zone (the offset
  of local time at a UTC time value, and the offset that applies to a local time value) and
  what \<^verbatim>\<open>Date.parse\<close> makes of any other text.
\<close>

record env =
  tzaOfUTC :: "int \<Rightarrow> int"
  tzaOfLocal :: "int \<Rightarrow> int"
  parseOther :: "string \<Rightarrow> int option"

definition msPerDay :: int where
  "msPerDay = 86400000"

definition dayFromYear :: "int \<Rightarrow> int" where
  "dayFromYear y = 365 * (y - 1970) + (y - 1969) div 4 - (y - 1901) div 100 + (y - 1601) div 400"

definition inLeapYear :: "int \<Rightarrow> bool" where
  "inLeapYear y = (y mod 4 = 0 \<and> (y mod 400 = 0 \<or> y mod 100 \<noteq> 0))"

text \<open>The largest year whose first day is not after day \<open>d\<close>.\<close>

definition yearFromDay :: "int \<Rightarrow> int" where
  "yearFromDay d =
     (let ye = 1970 + (d * 400) div 146097
      in if dayFromYear (ye + 1) \<le> d then ye + 1
         else if dayFromYear ye \<le> d then ye
         else ye - 1)"

text \<open>Days of the year before month \<open>m\<close> (0 to 11).\<close>

definition daysBeforeMonth :: "bool \<Rightarrow> int \<Rightarrow> int" where
  "daysBeforeMonth leap m =
     [0, 31, 59, 90, 120, 151, 181, 212, 243, 273, 304, 334] ! nat m
       + (if leap \<and> 2 \<le> m then 1 else 0)"

definition monthOfYearDay :: "bool \<Rightarrow> int \<Rightarrow> int" where
  "monthOfYearDay leap dw =
     int (length (filter (\<lambda>m. daysBeforeMonth leap m \<le> dw) [1, 2, 3, 4, 5, 6, 7, 8, 9, 10, 11]))"

definition dayOf :: "int \<Rightarrow> int" where
  "dayOf t = t div msPerDay"

definition timeWithinDay :: "int \<Rightarrow> int" where
  "timeWithinDay t = t mod msPerDay"

definition yearFromTime :: "int \<Rightarrow> int" where
  "yearFromTime t = yearFromDay (dayOf t)"

definition dayWithinYear :: "int \<Rightarrow> int" where
  "dayWithinYear t = dayOf t - dayFromYear (yearFromTime t)"

definition monthFromTime :: "int \<Rightarrow> int" where
  "monthFromTime t = monthOfYearDay (inLeapYear (yearFromTime t)) (dayWithinYear t)"

definition dateFromTime :: "int \<Rightarrow> int" where
  "dateFromTime t =
     dayWithinYear t - daysBeforeMonth (inLeapYear (yearFromTime t)) (monthFromTime t) + 1"

definition makeDay :: "int \<Rightarrow> int \<Rightarrow> int \<Rightarrow> int" where
  "makeDay year month date =
     (let ym = year + month div 12; mn = month mod 12
      in dayFromYear ym + daysBeforeMonth (inLeapYear ym) mn + date - 1)"

definition timeClip :: "int \<Rightarrow> int option" where
  "timeClip t = (if \<bar>t\<bar> \<le> 8640000000000000 then Some t else None)"

definition getDate :: "env \<Rightarrow> int \<Rightarrow> int" where
  "getDate e t = dateFromTime (t + tzaOfUTC e t)"

definition setDate :: "env \<Rightarrow> int \<Rightarrow> int \<Rightarrow> int option" where
  "setDate e t date =
     (let lt = t + tzaOfUTC e t;
          nd = makeDay (yearFromTime lt) (monthFromTime lt) date * msPerDay + timeWithinDay lt
      in timeClip (nd - tzaOfLocal e nd))"

definition digitVal :: "char \<Rightarrow> int option" where
  "digitVal c = map_of (zip ''0123456789'' [0, 1, 2, 3, 4, 5, 6, 7, 8, 9]) c"

fun digitsVal :: "int \<Rightarrow> string \<Rightarrow> int option" where
  "digitsVal acc [] = Some acc"
| "digitsVal acc (c # cs) =
     (case digitVal c of None \<Rightarrow> None | Some d \<Rightarrow> digitsVal (10 * acc + d) cs)"

definition daysInMonth :: "int \<Rightarrow> int \<Rightarrow> int" where
  "daysInMonth y m =
     (if m = 2 then (if inLeapYear y then 29 else 28)
      else if m = 4 \<or> m = 6 \<or> m = 9 \<or> m = 11 then 30 else 31)"

text \<open>\<^verbatim>\<open>Date.parse\<close> of the date-only form \<^verbatim>\<open>YYYY-MM-DD\<close> naming a day of the calendar:
  midnight UTC of that day.\<close>

fun parseDateOnly :: "string \<Rightarrow> int option" where
  "parseDateOnly [y1, y2, y3, y4, s1, m1, m2, s2, d1, d2] =
     (if s1 = CHR ''-'' \<and> s2 = CHR ''-'' then
        (case (digitsVal 0 [y1, y2, y3, y4], digitsVal 0 [m1, m2], digitsVal 0 [d1, d2]) of
           (Some y, Some m, Some d) \<Rightarrow>
             (if 1 \<le> m \<and> m \<le> 12 \<and> 1 \<le> d \<and> d \<le> daysInMonth y m
              then Some (makeDay y (m - 1) d * msPerDay) else None)
         | _ \<Rightarrow> None)
      else None)"
| "parseDateOnly s = None"

text \<open>\<^verbatim>\<open>new Date(v)\<close> for a property value that may be undefined.\<close>

fun newDate :: "env \<Rightarrow> json option \<Rightarrow> int option" where
  "newDate e None = None"
| "newDate e (Some JNull) = Some 0"
| "newDate e (Some (JBool b)) = Some (if b then 1 else 0)"
| "newDate e (Some (JNum n)) = timeClip n"
| "newDate e (Some (JStr s)) = (case parseDateOnly s of Some t \<Rightarrow> Some t | None \<Rightarrow> parseOther e s)"
| "newDate e (Some v) = (case parseDateOnly (toStr v) of Some t \<Rightarrow> Some t | None \<Rightarrow> parseOther e (toStr v))"

definition pad :: "nat \<Rightarrow> int \<Rightarrow> string" where
  "pad n k = replicate (n - length (dec (nat k))) (CHR ''0'') @ dec (nat k)"

text \<open>\<^verbatim>\<open>toISOString().split('T')[0]\<close> of a valid date.\<close>

definition toISODate :: "int \<Rightarrow> string" where
  "toISODate t =
     (let y = yearFromTime t
      in (if 0 \<le> y \<and> y \<le> 9999 then pad 4 y
          else (if y < 0 then ''-'' else ''+'') @ pad 6 \<bar>y\<bar>)
         @ ''-'' @ pad 2 (monthFromTime t + 1) @ ''-'' @ pad 2 (dateFromTime t))"

section \<open>tasks.js\<close>

definition freq :: "(string \<times> int) list" where
  "freq = [(''daily'', 1), (''weekly'', 7), (''fortnightly'', 14), (''monthly'', 30),
           (''quarterly'', 90), (''yearly'', 365)]"

text \<open>The names every object literal inherits from \<^verbatim>\<open>Object.prototype\<close>: under one of
  them \<^verbatim>\<open>freq[frequency]\<close> is a function or an object, the sum with \<^verbatim>\<open>getDate()\<close> a text
  that is no number, and the date invalid.\<close>

definition objectPrototypeKeys :: "string list" where
  "objectPrototypeKeys =
     [''constructor'', ''__defineGetter__'', ''__defineSetter__'', ''hasOwnProperty'',
      ''__lookupGetter__'', ''__lookupSetter__'', ''isPrototypeOf'', ''propertyIsEnumerable'',
      ''toString'', ''valueOf'', ''__proto__'', ''toLocaleString'']"

text \<open>\<^verbatim>\<open>freq[frequency] || 7\<close>, or \<open>None\<close> for what is no number.\<close>

definition offsetOf :: "json option \<Rightarrow> int option" where
  "offsetOf frequency =
     (case map_of freq (otoStr frequency) of
        Some n \<Rightarrow> Some n
      | None \<Rightarrow> if otoStr frequency \<in> set objectPrototypeKeys then None else Some 7)"

definition calculateNextDueDate :: "env \<Rightarrow> json option \<Rightarrow> json option \<Rightarrow> error + string" where
  "calculateNextDueDate e currentDate frequency =
     (case (newDate e currentDate, offsetOf frequency) of
        (Some t, Some n) \<Rightarrow>
          (case setDate e t (getDate e t + n) of
             Some t' \<Rightarrow> Inr (toISODate t')
           | None \<Rightarrow> Inl RangeError)
      | _ \<Rightarrow> Inl RangeError)"

definition taskSection :: "string \<Rightarrow> string" where
  "taskSection ttype = (if ttype = ''cleaning'' then ''cleaningTasks'' else ''maintenanceTasks'')"

definition getTasks :: "string \<Rightarrow> world \<Rightarrow> json" where
  "getTasks ttype w = orElse (getData (taskSection ttype) w) (JArr [])"

definition addTask :: "string \<Rightarrow> string \<Rightarrow> json \<Rightarrow> string \<Rightarrow> world \<Rightarrow> (error + json) \<times> world" where
  "addTask newId now taskData ttype w =
     (let newTask = JObj
            (AList.update ''createdDate'' (JStr now)
            (AList.update ''lastCompleted'' JNull
            (AList.update ''completed'' (JBool False)
            (spread [(''id'', JStr newId)] (ownProps taskData)))))
      in case getTasks ttype w of
           JArr xs \<Rightarrow>
             (let w1 = mutated (taskSection ttype) (JArr (xs @ [newTask])) w;
                  w2 = snd (updateData (taskSection ttype) (JArr (xs @ [newTask])) w1)
              in (Inr newTask, showSuccess ''Task added!'' w2))
         | _ \<Rightarrow> (Inl TypeError, w))"

text \<open>The assignments \<^verbatim>\<open>toggleTaskComplete\<close> makes to the task it found, up to the call of
  \<^verbatim>\<open>calculateNextDueDate\<close>, and after it.\<close>

definition flipped :: "string \<Rightarrow> json \<Rightarrow> json" where
  "flipped now task =
     (if otruthy (getProp task ''completed'')
      then JObj (AList.update ''completed'' (JBool False) (ownProps task))
      else JObj (AList.update ''lastCompleted'' (JStr now)
                (AList.update ''completed'' (JBool True) (ownProps task))))"

definition recurs :: "json \<Rightarrow> bool" where
  "recurs task = (\<not> otruthy (getProp task ''completed'') \<and> getProp task ''frequency'' \<noteq> Some (JStr ''once''))"

definition toggleTaskComplete ::
    "env \<Rightarrow> string \<Rightarrow> string \<Rightarrow> string \<Rightarrow> world \<Rightarrow> (error + json) \<times> world" where
  "toggleTaskComplete e now taskId ttype w =
     (case getTasks ttype w of
        JArr xs \<Rightarrow>
          (case findById taskId xs of
             Inl err \<Rightarrow> (Inl err, w)
           | Inr None \<Rightarrow> (Inr JNull, w)
           | Inr (Some i) \<Rightarrow>
               (if recurs (xs ! i) then
                  (case calculateNextDueDate e (getProp (xs ! i) ''dueDate'') (getProp (xs ! i) ''frequency'') of
                     Inl err \<Rightarrow>
                       (Inl err, mutated (taskSection ttype) (JArr (xs[i := flipped now (xs ! i)])) w)
                   | Inr due \<Rightarrow>
                       (let task = JObj (AList.update ''completed'' (JBool False)
                                        (AList.update ''dueDate'' (JStr due)
                                        (ownProps (flipped now (xs ! i)))));
                            w1 = mutated (taskSection ttype) (JArr (xs[i := task])) w;
                            w2 = snd (updateData (taskSection ttype) (JArr (xs[i := task])) w1)
                        in (Inr task, w2)))
                else
                  (let task = flipped now (xs ! i);
                       w1 = mutated (taskSection ttype) (JArr (xs[i := task])) w;
                       w2 = snd (updateData (taskSection ttype) (JArr (xs[i := task])) w1)
                   in (Inr task, w2))))
      | _ \<Rightarrow> (Inl TypeError, w))"

section \<open>shopping.js\<close>

definition getShoppingList :: "world \<Rightarrow> json" where
  "getShoppingList w = orElse (getData ''shoppingList'' w) (JArr [])"

definition addShoppingItem :: "string \<Rightarrow> string \<Rightarrow> json \<Rightarrow> world \<Rightarrow> (error + json) \<times> world" where
  "addShoppingItem newId now itemData w =
     (let newItem = JObj
            (AList.update ''addedDate'' (JStr now)
            (AList.update ''checked'' (JBool False)
            (spread [(''id'', JStr newId)] (ownProps itemData))))
      in case getShoppingList w of
           JArr xs \<Rightarrow>
             (let w1 = mutated ''shoppingList'' (JArr (xs @ [newItem])) w;
                  w2 = snd (updateData ''shoppingList'' (JArr (xs @ [newItem])) w1)
              in (Inr newItem, showSuccess ''Item added to shopping list!'' w2))
         | _ \<Rightarrow> (Inl TypeError, w))"

definition toggleItemChecked :: "string \<Rightarrow> world \<Rightarrow> (error + bool) \<times> world" where
  "toggleItemChecked itemId w =
     (case getShoppingList w of
        JArr xs \<Rightarrow>
          (case findById itemId xs of
             Inl e \<Rightarrow> (Inl e, w)
           | Inr None \<Rightarrow> (Inr False, w)
           | Inr (Some i) \<Rightarrow>
               (let c = \<not> otruthy (getProp (xs ! i) ''checked'');
                    it = JObj (AList.update ''checked'' (JBool c) (ownProps (xs ! i)));
                    w1 = mutated ''shoppingList'' (JArr (xs[i := it])) w;
                    w2 = snd (updateData ''shoppingList'' (JArr (xs[i := it])) w1)
                in (Inr c, w2)))
      | _ \<Rightarrow> (Inl TypeError, w))"













section \<open>planner.js\<close>

definition DAYS :: "string list" where
  "DAYS = [''Monday'', ''Tuesday'', ''Wednesday'', ''Thursday'', ''Friday'', ''Saturday'', ''Sunday'']"

definition getWeeklyPlan :: "world \<Rightarrow> json" where
  "getWeeklyPlan w = orElse (getData ''weeklyPlan'' w) (JObj [])"

text \<open>
  The plan \<^verbatim>\<open>getWeeklyPlan\<close> returns is \<^verbatim>\<open>defaultData.weeklyPlan\<close> itself when \<^verbatim>\<open>loadData\<close>
  returned \<^verbatim>\<open>{ ...defaultData }\<close>.  Otherwise it is a new object, whose array for a day
  the stored plan does not name is still the array in \<^verbatim>\<open>defaultData.weeklyPlan\<close>:
  \<open>dayShared\<close>.  \<open>pushed\<close> is what a \<^verbatim>\<open>push\<close> to \<^verbatim>\<open>plan[day]\<close> leaves in \<^verbatim>\<open>defaultData\<close>,
  \<open>plan\<close> being the plan after it and \<open>v\<close> the day's array.
\<close>

definition dayShared :: "string \<Rightarrow> world \<Rightarrow> bool" where
  "dayShared day w = (case parsedDoc w of
       None \<Rightarrow> False
     | Some d \<Rightarrow> map_of (oprops (getProp d ''weeklyPlan'')) day = None)"

definition pushed :: "string \<Rightarrow> json \<Rightarrow> json \<Rightarrow> world \<Rightarrow> world" where
  "pushed day v plan w =
     (if listShared ''weeklyPlan'' w then writeDefault ''weeklyPlan'' plan w
      else if dayShared day w then
        writeDefault ''weeklyPlan''
          (JObj (AList.update day v (oprops (getProp (defaults w) ''weeklyPlan'')))) w
      else w)"

text \<open>
  \<^verbatim>\<open>plan[day]\<close>, for a day the caller chooses: the plan's own property, or what the plan
  inherits.  A new object inherits from \<^verbatim>\<open>Object.prototype\<close>; \<^verbatim>\<open>defaultData.weeklyPlan\<close>
  inherits from the array \<open>planProto\<close> holds, once it holds one, and through it from
  \<^verbatim>\<open>Array.prototype\<close> (its names as of ECMAScript 2023) and \<^verbatim>\<open>Object.prototype\<close>.  What is
  inherited is the prototype itself under \<^verbatim>\<open>__proto__\<close>, an element or the length of that
  array, or a function (for \<^verbatim>\<open>__proto__\<close> of a new object, an object): \<open>Opaque\<close>, a truthy
  value with no \<^verbatim>\<open>includes\<close>, \<^verbatim>\<open>push\<close> or \<^verbatim>\<open>filter\<close>.
\<close>

datatype looked = Value json | Opaque | ProtoArray "string list" | Absent

definition arrayPrototypeKeys :: "string list" where
  "arrayPrototypeKeys =
     [''at'', ''concat'', ''copyWithin'', ''entries'', ''every'', ''fill'', ''filter'', ''find'',
      ''findIndex'', ''findLast'', ''findLastIndex'', ''flat'', ''flatMap'', ''forEach'',
      ''includes'', ''indexOf'', ''join'', ''keys'', ''lastIndexOf'', ''map'', ''pop'', ''push'',
      ''reduce'', ''reduceRight'', ''reverse'', ''shift'', ''slice'', ''some'', ''sort'', ''splice'',
      ''toReversed'', ''toSorted'', ''toSpliced'', ''unshift'', ''values'', ''with'']"

definition inherited :: "string list option \<Rightarrow> string \<Rightarrow> looked" where
  "inherited proto day = (case proto of
       None \<Rightarrow> if day \<in> set objectPrototypeKeys then Opaque else Absent
     | Some ids \<Rightarrow>
         if day = ''__proto__'' then ProtoArray ids
         else (case map_of (ownProps (JArr (map JStr ids))) day of
                 Some v \<Rightarrow> Value v
               | None \<Rightarrow>
                   if day = ''length'' then Value (JNum (int (length ids)))
                   else if day \<in> set arrayPrototypeKeys \<or> day \<in> set objectPrototypeKeys
                   then Opaque else Absent))"

definition planGet :: "world \<Rightarrow> json \<Rightarrow> string \<Rightarrow> looked" where
  "planGet w plan day = (case getProp plan day of
       Some v \<Rightarrow> Value v
     | None \<Rightarrow> inherited (if listShared ''weeklyPlan'' w then planProto w else None) day)"

text \<open>
  \<^verbatim>\<open>addMealToDay\<close>.  \<open>created\<close> is the path on which \<^verbatim>\<open>plan[day]\<close> was falsy and is assigned
  a new array.  Under \<^verbatim>\<open>__proto__\<close> the array reached is the prototype of the plan, and the
  id is pushed to it.
\<close>

definition addMealToDay :: "string \<Rightarrow> string \<Rightarrow> world \<Rightarrow> (error + bool) \<times> world" where
  "addMealToDay day mealId w =
     (let plan = getWeeklyPlan w;
          fresh = JObj (AList.update day (JArr [JStr mealId]) (ownProps plan));
          created =
            (let w1 = mutated ''weeklyPlan'' fresh w;
                 w2 = snd (updateData ''weeklyPlan'' fresh w1)
             in (Inr True, showSuccess (''Meal added to '' @ day @ ''!'') w2))
      in case planGet w plan day of
           Absent \<Rightarrow> created
         | Opaque \<Rightarrow> (Inl TypeError, w)
         | ProtoArray ids \<Rightarrow>
             (if mealId \<in> set ids then (Inr False, w)
              else
                (let w1 = w\<lparr>planProto := Some (ids @ [mealId])\<rparr>;
                     w2 = snd (updateData ''weeklyPlan'' plan w1)
                 in (Inr True, showSuccess (''Meal added to '' @ day @ ''!'') w2)))
         | Value (JArr xs) \<Rightarrow>
             (if JStr mealId \<in> set xs then (Inr False, w)
              else
                (let plan' = JObj (AList.update day (JArr (xs @ [JStr mealId])) (ownProps plan));
                     w1 = pushed day (JArr (xs @ [JStr mealId])) plan' w;
                     w2 = snd (updateData ''weeklyPlan'' plan' w1)
                 in (Inr True, showSuccess (''Meal added to '' @ day @ ''!'') w2)))
         | Value (JStr s) \<Rightarrow>
             (if s = [] then created
              else if strIncludes s mealId then (Inr False, w)
              else (Inl TypeError, w))
         | Value v \<Rightarrow> (if truthy v then (Inl TypeError, w) else created))"

text \<open>\<^verbatim>\<open>removeMealFromDay\<close>.  Under \<^verbatim>\<open>__proto__\<close> the filtered array becomes the prototype of
  the plan.\<close>

definition removeMealFromDay :: "string \<Rightarrow> string \<Rightarrow> world \<Rightarrow> (error + bool) \<times> world" where
  "removeMealFromDay day mealId w =
     (let plan = getWeeklyPlan w
      in case planGet w plan day of
           Absent \<Rightarrow> (Inr False, w)
         | Opaque \<Rightarrow> (Inl TypeError, w)
         | ProtoArray ids \<Rightarrow>
             (let w1 = w\<lparr>planProto := Some (filter (\<lambda>x. x \<noteq> mealId) ids)\<rparr>;
                  w2 = snd (updateData ''weeklyPlan'' plan w1)
              in (Inr True, showSuccess ''Meal removed'' w2))
         | Value (JArr xs) \<Rightarrow>
             (let plan' = JObj (AList.update day (JArr (filter (\<lambda>x. x \<noteq> JStr mealId) xs)) (ownProps plan));
                  w1 = mutated ''weeklyPlan'' plan' w;
                  w2 = snd (updateData ''weeklyPlan'' plan' w1)
              in (Inr True, showSuccess ''Meal removed'' w2))
         | Value v \<Rightarrow> (if truthy v then (Inl TypeError, w) else (Inr False, w)))"

text \<open>
  \<^verbatim>\<open>clearDay\<close>.  Assigning to \<^verbatim>\<open>plan['__proto__']\<close> sets no property of a plan that has none
  of that name: it makes the new array the prototype of the plan, which lasts when the plan
  is \<^verbatim>\<open>defaultData.weeklyPlan\<close>.
\<close>

definition clearDay :: "string \<Rightarrow> world \<Rightarrow> world" where
  "clearDay day w =
     (let plan = getWeeklyPlan w
      in if day = ''__proto__'' \<and> getProp plan day = None then
           (let w1 = (if listShared ''weeklyPlan'' w then w\<lparr>planProto := Some []\<rparr> else w);
                w2 = snd (updateData ''weeklyPlan'' plan w1)
            in showSuccess (day @ '' cleared'') w2)
         else
           (let plan' = JObj (AList.update day (JArr []) (ownProps plan));
                w1 = mutated ''weeklyPlan'' plan' w;
                w2 = snd (updateData ''weeklyPlan'' plan' w1)
            in showSuccess (day @ '' cleared'') w2))"

definition clearWeek :: "world \<Rightarrow> world" where
  "clearWeek w =
     (let plan = JObj (fold (\<lambda>day acc. AList.update day (JArr []) acc) DAYS []);
          w2 = snd (updateData ''weeklyPlan'' plan w)
      in showSuccess ''Week cleared!'' w2)"

section \<open>The save-meal service\<close>

definition isWordChar :: "char \<Rightarrow> bool" where
  "isWordChar c = (c \<in> set ''abcdefghijklmnopqrstuvwxyzABCDEFGHIJKLMNOPQRSTUVWXYZ0123456789_'')"

text \<open>\<^verbatim>\<open>.replace(/[^\w]+/g, '-')\<close>: every maximal run of characters that are not word
  characters becomes one hyphen.\<close>

function replaceNonWord :: "string \<Rightarrow> string" where
  "replaceNonWord [] = []"
| "replaceNonWord (c # cs) =
     (if isWordChar c then c # replaceNonWord cs
      else CHR ''-'' # replaceNonWord (dropWhile (\<lambda>x. \<not> isWordChar x) cs))"
  by pat_completeness auto
termination
  by (relation "measure length") (auto simp: less_Suc_eq_le length_dropWhile_le)

text \<open>\<^verbatim>\<open>.replace(/(^-+|-+$)/g, '')\<close>.\<close>

definition trimHyphens :: "string \<Rightarrow> string" where
  "trimHyphens s = rev (dropWhile (\<lambda>x. x = CHR ''-'') (rev (dropWhile (\<lambda>x. x = CHR ''-'') s)))"

definition slugify :: "string \<Rightarrow> string" where
  "slugify t = trimHyphens (replaceNonWord (toLowerCase t)) @ ''.json''"

text \<open>The path the handler of \<^verbatim>\<open>POST /api/save-meal\<close> computes from the request body; a
  \<^verbatim>\<open>type\<close> or \<^verbatim>\<open>title\<close> that is no string throws, and the handler answers 500.\<close>

definition filePath :: "json \<Rightarrow> error + string" where
  "filePath meal =
     (case getProp meal ''type'' of
        Some (JStr ty) \<Rightarrow>
          (case getProp meal ''title'' of
             Some (JStr title) \<Rightarrow> Inr (''meals/'' @ toLowerCase ty @ ''/'' @ slugify title)
           | _ \<Rightarrow> Inl TypeError)
      | _ \<Rightarrow> Inl TypeError)"

section \<open>Names used by the properties\<close>

text \<open>The section names of the document: the keys of \<^verbatim>\<open>defaultData\<close>.\<close>

definition sectionNames :: "string list" where
  "sectionNames = map fst (ownProps defaultData)"

text \<open>A browser whose store accepts every write.\<close>

definition accepting :: "json \<Rightarrow> outcome" where
  "accepting d = Accepted"

text \<open>The filter of C6, and C6's reading of it: the type is \<^verbatim>\<open>'dinner'\<close> and the dietary
  list holds every element of \<^verbatim>\<open>['vegan']\<close>.\<close>

definition dinnerVegan :: filters where
  "dinnerVegan = \<lparr>ftype = Some ''dinner'', fdietary = Some [''vegan''], fingredient = None,
                   fsearch = None\<rparr>"

definition isDinnerVegan :: "json \<Rightarrow> bool" where
  "isDinnerVegan m =
     (getProp m ''type'' = Some (JStr ''dinner'')
      \<and> (case getProp m ''dietary'' of
            Some (JArr ds) \<Rightarrow> list_all (\<lambda>d. JStr d \<in> set ds) [''vegan'']
          | _ \<Rightarrow> False))"

text \<open>A stored document and a page over it, for the concrete instances.\<close>

definition sampleMeals :: "json list" where
  "sampleMeals =
     [JObj [(''id'', JStr ''m1''), (''title'', JStr ''Dal''), (''type'', JStr ''dinner''),
            (''dietary'', JArr [JStr ''vegan'', JStr ''gluten-free'']),
            (''ingredients'', JArr [JStr ''Lentils'', JStr ''Rice''])],
      JObj [(''id'', JStr ''m2''), (''title'', JStr ''Omelette''), (''type'', JStr ''breakfast''),
            (''dietary'', JArr [JStr ''vegetarian'']),
            (''ingredients'', JArr [JStr ''Eggs''])],
      JObj [(''id'', JStr ''m3''), (''title'', JStr ''Steak''), (''type'', JStr ''dinner''),
            (''dietary'', JArr []),
            (''ingredients'', JArr [JStr ''Beef'', JStr ''rice''])]]"

definition sampleTasks :: "json list" where
  "sampleTasks =
     [JObj [(''id'', JStr ''t1''), (''name'', JStr ''Hoover''), (''frequency'', JStr ''weekly''),
            (''dueDate'', JStr ''2024-03-25''), (''completed'', JBool False),
            (''lastCompleted'', JNull)]]"

definition sampleItems :: "json list" where
  "sampleItems = [JObj [(''id'', JStr ''s1''), (''name'', JStr ''RICE''), (''checked'', JBool False)]]"

definition sampleStore :: json where
  "sampleStore = JObj
     [(''meals'', JArr sampleMeals),
      (''weeklyPlan'', JObj
         [(''Monday'', JArr [JStr ''m1'']), (''Tuesday'', JArr [JStr ''m3'', JStr ''m1'']),
          (''Wednesday'', JArr []), (''Thursday'', JArr []), (''Friday'', JArr []),
          (''Saturday'', JArr []), (''Sunday'', JArr [])]),
      (''shoppingList'', JArr sampleItems),
      (''householdItems'', JArr []),
      (''cleaningTasks'', JArr sampleTasks),
      (''maintenanceTasks'', JArr []),
      (''settings'', defaultSettings)]"

definition samplePage :: world where
  "samplePage = freshPage (Some (Parsed sampleStore)) accepting"





text \<open>
  Two environments.  \<open>utcZone\<close>: local time is UTC.  \<open>londonZone\<close>: local time is UTC until
  2024-03-31T01:00Z and one hour ahead from then on, as in London in spring 2024; a local
  time in the hour the clocks skip is read with the offset before the change.  Neither
  parses any text but the date-only form.
\<close>

definition utcZone :: env where
  "utcZone = \<lparr>tzaOfUTC = (\<lambda>t. 0), tzaOfLocal = (\<lambda>t. 0), parseOther = (\<lambda>s. None)\<rparr>"

definition londonZone :: env where
  "londonZone =
     \<lparr>tzaOfUTC = (\<lambda>t. if 1711846800000 \<le> t then 3600000 else 0),
      tzaOfLocal = (\<lambda>t. if 1711846800000 + 3600000 \<le> t then 3600000 else 0),
      parseOther = (\<lambda>s. None)\<rparr>"

text \<open>
  Lower case by code point, as Unicode gives it for the characters below 256: the codes
  65 to 90, 192 to 214 and 216 to 222 are those of the capital letters, and the lower-case
  letter of each has the code 32 above.
\<close>

definition lowerCode :: "nat \<Rightarrow> nat" where
  "lowerCode n =
     (if (65 \<le> n \<and> n \<le> 90) \<or> (192 \<le> n \<and> n \<le> 214) \<or> (216 \<le> n \<and> n \<le> 222) then n + 32 else n)"

definition lowerSpec :: "string \<Rightarrow> string" where
  "lowerSpec s = map (\<lambda>c. char_of (lowerCode (of_char c))) s"

text \<open>
  The slug as C8 words it: the title in lower case, every maximal run of characters that
  are not word characters replaced by one hyphen, and the hyphens at both ends removed.
  \<open>runsOf\<close> cuts a text into its maximal runs of word characters and of other characters.
\<close>

function runsOf :: "string \<Rightarrow> string list" where
  "runsOf [] = []"
| "runsOf (c # cs) =
     (c # takeWhile (\<lambda>x. isWordChar x = isWordChar c) cs)
       # runsOf (dropWhile (\<lambda>x. isWordChar x = isWordChar c) cs)"
  by pat_completeness auto
termination
  by (relation "measure length") (auto simp: less_Suc_eq_le length_dropWhile_le)

definition collapseSpec :: "string \<Rightarrow> string" where
  "collapseSpec s = concat (map (\<lambda>r. if isWordChar (hd r) then r else ''-'') (runsOf s))"

definition trimSpec :: "string \<Rightarrow> string" where
  "trimSpec s = rev (dropWhile (\<lambda>x. x = CHR ''-'') (rev (dropWhile (\<lambda>x. x = CHR ''-'') s)))"

definition slugSpec :: "string \<Rightarrow> string" where
  "slugSpec title = trimSpec (collapseSpec (lowerSpec title))"

text \<open>
  The actions of C5 on a page, one after the other.  A load reads only.  \<open>planOf\<close> is the
  weekly plan a content of the store or a file holds; \<open>repeatFree\<close>: its entries are lists
  in which no id occurs twice; \<open>onDayKeys\<close>: its keys are day names.  \<open>importsRepeatFree\<close>
  and \<open>onDays\<close> say of an action that the plan it imports is such, and \<open>onDays\<close> also that
  the day it is given is one of the seven.
\<close>

datatype action =
    Load
  | AddMealToDay string string
  | RemoveMealFromDay string string
  | ClearDay string
  | ClearWeek
  | Import upload

fun perform :: "action \<Rightarrow> world \<Rightarrow> world" where
  "perform Load w = w"
| "perform (AddMealToDay day mealId) w = snd (addMealToDay day mealId w)"
| "perform (RemoveMealFromDay day mealId) w = snd (removeMealFromDay day mealId w)"
| "perform (ClearDay day) w = clearDay day w"
| "perform ClearWeek w = clearWeek w"
| "perform (Import f) w = snd (importData f w)"

definition runActions :: "action list \<Rightarrow> world \<Rightarrow> world" where
  "runActions acts w = fold perform acts w"

fun noRepeats :: "json \<Rightarrow> bool" where
  "noRepeats (JArr ids) = distinct ids"
| "noRepeats v = False"

fun planOf :: "stored option \<Rightarrow> obj" where
  "planOf (Some (Parsed d)) = oprops (getProp d ''weeklyPlan'')"
| "planOf st = []"

fun uploaded :: "upload \<Rightarrow> stored option" where
  "uploaded Unreadable = None"
| "uploaded (Content c) = Some c"

definition repeatFree :: "obj \<Rightarrow> bool" where
  "repeatFree plan = list_all (\<lambda>(k, v). noRepeats v) plan"

definition onDayKeys :: "obj \<Rightarrow> bool" where
  "onDayKeys plan = list_all (\<lambda>(k, v). k \<in> set DAYS) plan"

fun importsRepeatFree :: "action \<Rightarrow> bool" where
  "importsRepeatFree (Import f) = repeatFree (planOf (uploaded f))"
| "importsRepeatFree a = True"

fun onDays :: "action \<Rightarrow> bool" where
  "onDays (Import f) = onDayKeys (planOf (uploaded f))"
| "onDays (AddMealToDay day mealId) = (day \<in> set DAYS)"
| "onDays (RemoveMealFromDay day mealId) = (day \<in> set DAYS)"
| "onDays (ClearDay day) = (day \<in> set DAYS)"
| "onDays a = True"

text \<open>
  For the invariants of the plan: the plan \<^verbatim>\<open>defaultData\<close> holds, the plan \<^verbatim>\<open>loadData\<close>
  merges of the two, and a property \<open>E\<close> of every entry of the default plan and of the
  stored plan.  \<open>admits E a\<close> says that the entries action \<open>a\<close> writes have \<open>E\<close> when the
  entries it read have.
\<close>

definition defaultPlan :: "world \<Rightarrow> obj" where
  "defaultPlan w = oprops (getProp (defaults w) ''weeklyPlan'')"

definition planBase :: "world \<Rightarrow> bool" where
  "planBase w = (\<exists>dkvs dplan. defaults w = JObj dkvs \<and> map_of dkvs ''weeklyPlan'' = Some (JObj dplan)
       \<and> distinct (map fst dplan) \<and> set DAYS \<subseteq> fst ` set dplan)"

definition mergedPlan :: "world \<Rightarrow> obj" where
  "mergedPlan w = (case parsedDoc w of
       None \<Rightarrow> defaultPlan w
     | Some d \<Rightarrow> spread (spread [] (defaultPlan w)) (oprops (getProp d ''weeklyPlan'')))"

definition entriesOk :: "(string \<Rightarrow> json \<Rightarrow> bool) \<Rightarrow> world \<Rightarrow> bool" where
  "entriesOk E w = ((\<forall>(k, v)\<in>set (defaultPlan w). E k v)
       \<and> (\<forall>d. parsedDoc w = Some d \<longrightarrow> (\<forall>(k, v)\<in>set (oprops (getProp d ''weeklyPlan'')). E k v)))"

fun admits :: "(string \<Rightarrow> json \<Rightarrow> bool) \<Rightarrow> action \<Rightarrow> bool" where
  "admits E Load = True"
| "admits E (AddMealToDay day mealId) =
     (E day (JArr [JStr mealId])
      \<and> (\<forall>xs. E day (JArr xs) \<and> JStr mealId \<notin> set xs \<longrightarrow> E day (JArr (xs @ [JStr mealId]))))"
| "admits E (RemoveMealFromDay day mealId) =
     (\<forall>xs. E day (JArr xs) \<longrightarrow> E day (JArr (filter (\<lambda>x. x \<noteq> JStr mealId) xs)))"
| "admits E (ClearDay day) = E day (JArr [])"
| "admits E ClearWeek = (\<forall>day\<in>set DAYS. E day (JArr []))"
| "admits E (Import f) = (\<forall>(k, v)\<in>set (planOf (uploaded f)). E k v)"

definition good :: "(string \<Rightarrow> json \<Rightarrow> bool) \<Rightarrow> world \<Rightarrow> bool" where
  "good E w = (planBase w \<and> entriesOk E w)"

definition mondayPlan :: json where
  "mondayPlan = JObj [(''Monday'', JArr [JStr ''m1'']), (''Tuesday'', JArr []),
       (''Wednesday'', JArr []), (''Thursday'', JArr []), (''Friday'', JArr []),
       (''Saturday'', JArr []), (''Sunday'', JArr [])]"










section \<open>Properties\<close>

subsection \<open>Texts\<close>

text \<open>\<^verbatim>\<open>toLowerCase\<close>, given above by the table of the letters, is the lower case by code
  point.\<close>

lemma lowerChar_code: "of_char (lowerChar c) = lowerCode (of_char c)"
  by (cases c) (auto simp: lowerChar_def upperChars_def lowerChars_def lowerCode_def)

lemma toLowerCase_lowerSpec: "toLowerCase s = lowerSpec s"
proof -
  have "lowerChar c = char_of (lowerCode (of_char c))" for c
    using lowerChar_code [of c, symmetric] by simp
  then show ?thesis
    by (simp add: toLowerCase_def lowerSpec_def)
qed

lemmas lower_defs =
  toLowerCase_lowerSpec [symmetric] toLowerCase_def lowerChar_def upperChars_def lowerChars_def

subsection \<open>Objects and the store\<close>

lemma map_of_fold_copy:
  "map_of (fold (\<lambda>k acc. case map_of src k of Some v \<Rightarrow> AList.update k v acc | None \<Rightarrow> acc) ks a) k
     = (if k \<in> set ks \<and> map_of src k \<noteq> None then map_of src k else map_of a k)"
  by (induction ks arbitrary: a) (auto simp: update_conv' split: option.splits)

lemma map_of_spread:
  "map_of (spread a b) k = (case map_of b k of Some v \<Rightarrow> Some v | None \<Rightarrow> map_of a k)"
  unfolding spread_def map_of_fold_copy
  by (auto simp: map_of_eq_None_iff split: option.splits dest: map_of_SomeD intro: rev_image_eqI)

lemma map_of_spread_Nil [simp]: "map_of (spread [] b) = map_of b"
  by (rule ext) (simp add: map_of_spread split: option.splits)

lemma getProp_JObj [simp]: "getProp (JObj kvs) k = map_of kvs k"
  by (simp add: getProp_def)

lemma loadData_JObj: "\<exists>kvs. loadData w = JObj kvs"
  by (cases "parsedDoc w") (auto simp: loadData_def)

lemma saveData_Accepted:
  "fst (saveData d w) \<Longrightarrow>
     snd (saveData d w) = w\<lparr>item := Some (Parsed d), events := events w @ [SetItem d]\<rparr>"
  by (auto simp: saveData_def split: outcome.splits)

lemma parsedDoc_stored [simp]:
  "parsedDoc (w\<lparr>item := Some (Parsed (JObj kvs)), events := ev\<rparr>) = Some (JObj kvs)"
  by (simp add: parsedDoc_def)

lemma getData_after_save:
  "getData s (w\<lparr>item := Some (Parsed (JObj kvs)), events := ev\<rparr>) =
     (if s = ''settings'' then
        Some (JObj (spread (spread [] (oprops (getProp (defaults w) ''settings'')))
                      (oprops (map_of kvs ''settings''))))
      else if s = ''weeklyPlan'' then
        Some (JObj (spread (spread [] (oprops (getProp (defaults w) ''weeklyPlan'')))
                      (oprops (map_of kvs ''weeklyPlan''))))
      else (case map_of kvs s of Some v \<Rightarrow> Some v | None \<Rightarrow> getProp (defaults w) s))"
  by (simp add: getData_def loadData_def update_conv' map_of_spread getProp_def split: option.splits)

subsection \<open>C1: set, then get\<close>

text \<open>
  C1 as stated fails: \<^verbatim>\<open>getData\<close> after \<^verbatim>\<open>updateData\<close> does not return the value written
  for \<^verbatim>\<open>weeklyPlan\<close> when the value omits a default day.  On a new page over an empty
  store that accepts the write, writing a plan with the one key \<^verbatim>\<open>Monday\<close> and reading it
  back gives a plan that is not the one written.
\<close>

theorem C1_roundtrip_counterexample:
  "fst (updateData ''weeklyPlan'' (JObj [(''Monday'', JArr [JStr ''m1''])]) (freshPage None accepting))
   \<and> getData ''weeklyPlan''
        (snd (updateData ''weeklyPlan'' (JObj [(''Monday'', JArr [JStr ''m1''])])
               (freshPage None accepting)))
      \<noteq> Some (JObj [(''Monday'', JArr [JStr ''m1''])])"
  by (simp add: updateData_def saveData_def freshPage_def loadData_def parsedDoc_def getData_def
        defaultData_def defaultWeeklyPlan_def defaultSettings_def spread_def accepting_def)

text \<open>
  C1, amended.  For every section name \<open>s\<close> of the document, every value \<open>v\<close> and every
  state, when \<^verbatim>\<open>updateData(s, v)\<close> reports success, \<^verbatim>\<open>getData(s)\<close> then returns \<open>v\<close> itself
  for every section but \<^verbatim>\<open>weeklyPlan\<close> and \<^verbatim>\<open>settings\<close>; for these two it returns the
  object that has the properties of \<open>v\<close> laid over those \<^verbatim>\<open>defaultData\<close> holds for the
  section: under a key of \<open>v\<close> the value \<open>v\<close> gives, under any other key the default.
\<close>

theorem C1_roundtrip_amended:
  assumes "s \<in> set sectionNames" and "fst (updateData s v w)"
  shows "getData s (snd (updateData s v w)) =
           (if s = ''weeklyPlan'' \<or> s = ''settings''
            then Some (JObj (spread (spread [] (oprops (getProp (defaults w) s))) (ownProps v)))
            else Some v)
         \<and> (\<forall>k. map_of (spread (spread [] (oprops (getProp (defaults w) s))) (ownProps v)) k =
                (case getProp v k of
                   Some x \<Rightarrow> Some x
                 | None \<Rightarrow> map_of (oprops (getProp (defaults w) s)) k))"
proof -
  obtain kvs where l: "loadData w = JObj kvs"
    using loadData_JObj by blast
  have "snd (updateData s v w) =
          w\<lparr>item := Some (Parsed (JObj (AList.update s v kvs))),
            events := events w @ [SetItem (JObj (AList.update s v kvs))]\<rparr>"
    using assms(2) saveData_Accepted by (simp add: updateData_def l)
  then have "getData s (snd (updateData s v w)) =
           (if s = ''weeklyPlan'' \<or> s = ''settings''
            then Some (JObj (spread (spread [] (oprops (getProp (defaults w) s))) (ownProps v)))
            else Some v)"
    by (simp add: getData_after_save update_conv')
  then show ?thesis
    by (simp add: map_of_spread getProp_def split: option.splits)
qed

theorem C1_roundtrip_witness:
  "''settings'' \<in> set sectionNames
   \<and> fst (updateData ''settings'' (JObj [(''notifyMeals'', JBool False)]) (freshPage None accepting))
   \<and> getData ''settings''
        (snd (updateData ''settings'' (JObj [(''notifyMeals'', JBool False)]) (freshPage None accepting)))
      = Some (JObj [(''notificationsEnabled'', JBool False), (''notifyMeals'', JBool False),
                    (''notifyCleaning'', JBool True), (''notifyShopping'', JBool True),
                    (''lastExport'', JNull)])"
proof -
  have h1: "''settings'' \<in> set sectionNames"
    by (simp add: sectionNames_def defaultData_def)
  have h2: "fst (updateData ''settings'' (JObj [(''notifyMeals'', JBool False)]) (freshPage None accepting))"
    by (simp add: updateData_def saveData_def freshPage_def accepting_def)
  show ?thesis
    using h1 h2 C1_roundtrip_amended [OF h1 h2]
    by (simp add: freshPage_def defaultData_def defaultSettings_def spread_def)
qed

lemmas model_defs =
  updateData_def saveData_def freshPage_def loadData_def parsedDoc_def getData_def
  defaultData_def defaultWeeklyPlan_def defaultSettings_def spread_def accepting_def
  getWeeklyPlan_def pushed_def mutated_def listShared_def sectionShared_def writeDefault_def
  showSuccess_def dayShared_def objectPrototypeKeys_def planGet_def inherited_def Let_def

lemma sample_lists:
  "getMeals samplePage = JArr sampleMeals"
  "getTasks ''cleaning'' samplePage = JArr sampleTasks"
  "getShoppingList samplePage = JArr sampleItems"
  by (simp_all add: getMeals_def getTasks_def getShoppingList_def taskSection_def samplePage_def
        sampleStore_def getData_def loadData_def parsedDoc_def freshPage_def defaultData_def
        defaultWeeklyPlan_def defaultSettings_def spread_def)

subsection \<open>C2: loading from an empty store\<close>

text \<open>On a page that has just loaded the module, \<^verbatim>\<open>loadData\<close> over an empty store returns
  the document written in the source.\<close>

lemma loadData_fresh_empty: "loadData (freshPage None acc) = defaultData"
  by (simp add: model_defs)

text \<open>
  C2 fails on the code once a function has written into an array of \<^verbatim>\<open>defaultData\<close>.  A page
  whose store holds the default document, as \<^verbatim>\<open>initStorage\<close> leaves it on a first visit:
  \<^verbatim>\<open>clearAllData(true)\<close> empties the store; \<^verbatim>\<open>addMealToDay('Monday', 'm1')\<close> then pushes the
  id to the array that \<^verbatim>\<open>defaultData.weeklyPlan\<close> holds for Monday, since
  \<^verbatim>\<open>{ ...defaultData }\<close> copies one level only; \<^verbatim>\<open>clearAllData(true)\<close> empties the store
  again.  The store holds no document, and \<^verbatim>\<open>loadData\<close> returns a plan whose Monday is not
  empty: not the document written in the source.
\<close>

theorem C2_load_after_push_to_default:
  "item (snd (clearAllData True False False
            (snd (addMealToDay ''Monday'' ''m1''
               (snd (clearAllData True False False
                  (freshPage (Some (Parsed defaultData)) accepting))))))) = None
   \<and> getProp (loadData (snd (clearAllData True False False
            (snd (addMealToDay ''Monday'' ''m1''
               (snd (clearAllData True False False
                  (freshPage (Some (Parsed defaultData)) accepting)))))))) ''weeklyPlan''
       = Some (JObj [(''Monday'', JArr [JStr ''m1'']), (''Tuesday'', JArr []),
            (''Wednesday'', JArr []), (''Thursday'', JArr []), (''Friday'', JArr []),
            (''Saturday'', JArr []), (''Sunday'', JArr [])])
   \<and> loadData (snd (clearAllData True False False
            (snd (addMealToDay ''Monday'' ''m1''
               (snd (clearAllData True False False
                  (freshPage (Some (Parsed defaultData)) accepting))))))) \<noteq> defaultData"
  by (simp add: model_defs addMealToDay_def clearAllData_def)

subsection \<open>C4: import\<close>

text \<open>What \<^verbatim>\<open>importData\<close> rejects, it rejects before any write: the state is unchanged.\<close>

lemma importData_rejects:
  "importData Unreadable w = (Inl ReadError, w)"
  "importData (Content Unparseable) w = (Inl SyntaxError, w)"
  "isPrim d \<Longrightarrow> importData (Content (Parsed d)) w = (Inl InvalidDataFormat, w)"
  by (simp_all add: importData_def)

text \<open>What it accepts, it merges as \<^verbatim>\<open>loadData\<close> would merge that document were it the
  stored one, and saves the result.\<close>

lemma importData_merges_as_loadData:
  assumes "\<not> isPrim d"
  shows "importData (Content (Parsed d)) w =
           (case saveData (loadData (w\<lparr>item := Some (Parsed d)\<rparr>)) w of
              (True, w') \<Rightarrow> (Inr True, w')
            | (False, w') \<Rightarrow> (Inl FailedToSave, w'))"
proof -
  have "d \<noteq> JNull" "truthy d"
    using assms by (cases d; simp)+
  then show ?thesis
    using assms by (simp add: importData_def loadData_def parsedDoc_def Let_def)
qed

text \<open>
  C4 fails on the code for a file that holds a JSON array: \<^verbatim>\<open>typeof []\<close> is \<^verbatim>\<open>'object'\<close>
  and an array is truthy, so the check lets it pass.  Importing the file \<^verbatim>\<open>[]\<close> over the
  sample store reports success, and the document saved over the stored one is the
  defaults.
\<close>

theorem C4_import_accepts_array:
  "importData (Content (Parsed (JArr []))) samplePage
     = (Inr True, samplePage\<lparr>item := Some (Parsed defaultData), events := [SetItem defaultData]\<rparr>)"
  by (simp add: importData_def samplePage_def freshPage_def saveData_def accepting_def
        defaultData_def defaultWeeklyPlan_def defaultSettings_def spread_def getProp_def
        Let_def)

text \<open>So the array is not answered with the rejection, and the stored document is replaced.\<close>

theorem C4_import_array_not_rejected:
  "importData (Content (Parsed (JArr []))) samplePage \<noteq> (Inl InvalidDataFormat, samplePage)
   \<and> item (snd (importData (Content (Parsed (JArr []))) samplePage)) \<noteq> item samplePage"
  using C4_import_accepts_array
  by (simp add: samplePage_def freshPage_def sampleStore_def defaultData_def sampleItems_def)

subsection \<open>C6: filtering meals\<close>

lemma filterM_total:
  "\<forall>x\<in>set xs. p x = Inr (q x) \<Longrightarrow> filterM p xs = Inr (filter q xs)"
  by (induction xs) auto

lemma typeFails_dinnerVegan:
  "m \<noteq> JNull \<Longrightarrow> typeFails dinnerVegan m = Inr (getProp m ''type'' \<noteq> Some (JStr ''dinner''))"
  by (simp add: typeFails_def dinnerVegan_def)

lemma dietaryFails_dinnerVegan:
  "m \<noteq> JNull \<Longrightarrow> getProp m ''dietary'' = Some (JArr ds) \<Longrightarrow>
     dietaryFails dinnerVegan m = Inr (JStr ''vegan'' \<notin> set ds)"
  by (cases "JStr ''vegan'' \<in> set ds") (simp_all add: dietaryFails_def dinnerVegan_def)

lemma otherFails_dinnerVegan:
  "ingredientFails dinnerVegan m = Inr False" "searchFails dinnerVegan m = Inr False"
  by (simp_all add: ingredientFails_def searchFails_def dinnerVegan_def)

lemma keepMeal_dinnerVegan:
  assumes "m \<noteq> JNull"
    and "getProp m ''type'' = Some (JStr ''dinner'') \<longrightarrow> (\<exists>ds. getProp m ''dietary'' = Some (JArr ds))"
  shows "keepMeal dinnerVegan m = Inr (isDinnerVegan m)"
proof (cases "getProp m ''type'' = Some (JStr ''dinner'')")
  case True
  then obtain ds where ds: "getProp m ''dietary'' = Some (JArr ds)"
    using assms(2) by blast
  show ?thesis
    using True ds assms(1)
    by (cases "JStr ''vegan'' \<in> set ds")
       (simp_all add: keepMeal_def typeFails_dinnerVegan dietaryFails_dinnerVegan
          otherFails_dinnerVegan isDinnerVegan_def)
next
  case False
  then show ?thesis
    using assms(1) by (simp add: keepMeal_def typeFails_dinnerVegan isDinnerVegan_def)
qed

text \<open>
  C6.  For every stored meal collection, a list of meal records in which every dinner has a
  dietary list, \<^verbatim>\<open>filterMeals({type: 'dinner', dietary: ['vegan']})\<close> returns exactly the
  meals whose type is \<^verbatim>\<open>'dinner'\<close> and whose dietary list contains every element of
  \<^verbatim>\<open>['vegan']\<close>, in the stored order: both tests must hold.
\<close>

theorem C6_filterMeals_dinner_vegan:
  assumes "getMeals w = JArr ms"
    and "\<forall>m\<in>set ms. m \<noteq> JNull
           \<and> (getProp m ''type'' = Some (JStr ''dinner'')
                \<longrightarrow> (\<exists>ds. getProp m ''dietary'' = Some (JArr ds)))"
  shows "filterMeals dinnerVegan w = Inr (filter isDinnerVegan ms)"
  using assms by (simp add: filterMeals_def filterM_total keepMeal_dinnerVegan)

theorem C6_filterMeals_witness:
  "getMeals samplePage = JArr sampleMeals
   \<and> list_all (\<lambda>m. m \<noteq> JNull
          \<and> (if getProp m ''type'' = Some (JStr ''dinner'')
              then \<exists>ds. getProp m ''dietary'' = Some (JArr ds) else True)) sampleMeals
   \<and> filterMeals dinnerVegan samplePage =
       Inr [JObj [(''id'', JStr ''m1''), (''title'', JStr ''Dal''), (''type'', JStr ''dinner''),
                  (''dietary'', JArr [JStr ''vegan'', JStr ''gluten-free'']),
                  (''ingredients'', JArr [JStr ''Lentils'', JStr ''Rice''])]]"
proof -
  have h: "\<forall>m\<in>set sampleMeals. m \<noteq> JNull
             \<and> (getProp m ''type'' = Some (JStr ''dinner'')
                  \<longrightarrow> (\<exists>ds. getProp m ''dietary'' = Some (JArr ds)))"
    by (simp add: sampleMeals_def)
  show ?thesis
    using C6_filterMeals_dinner_vegan [OF sample_lists(1) h]
    by (simp add: sample_lists(1) isDinnerVegan_def sampleMeals_def)
qed

subsection \<open>C9: an id that is not there\<close>

lemma findById_absent:
  "JNull \<notin> set xs \<Longrightarrow> \<forall>x\<in>set xs. getProp x ''id'' \<noteq> Some (JStr i) \<Longrightarrow> findById i xs = Inr None"
  by (induction xs) auto

text \<open>
  C9.  When the collection is a list of records and none of them has the id, \<^verbatim>\<open>updateMeal\<close>
  and \<^verbatim>\<open>toggleTaskComplete\<close> return \<^verbatim>\<open>null\<close> and \<^verbatim>\<open>toggleItemChecked\<close> returns
  \<^verbatim>\<open>false\<close>, and the state is the one before the call: the stored document is unchanged,
  \<^verbatim>\<open>setItem\<close> is not called, the user is shown nothing.
\<close>

theorem C9_not_found_changes_nothing:
  "(getMeals w = JArr ms \<and> JNull \<notin> set ms \<and> (\<forall>m\<in>set ms. getProp m ''id'' \<noteq> Some (JStr i))
      \<longrightarrow> updateMeal i d w = (Inr JNull, w))
   \<and> (getTasks ttype w = JArr ts \<and> JNull \<notin> set ts
         \<and> (\<forall>t\<in>set ts. getProp t ''id'' \<noteq> Some (JStr i))
      \<longrightarrow> toggleTaskComplete e now i ttype w = (Inr JNull, w))
   \<and> (getShoppingList w = JArr its \<and> JNull \<notin> set its
         \<and> (\<forall>t\<in>set its. getProp t ''id'' \<noteq> Some (JStr i))
      \<longrightarrow> toggleItemChecked i w = (Inr False, w))"
  by (simp add: updateMeal_def toggleTaskComplete_def toggleItemChecked_def findById_absent)

theorem C9_not_found_witness:
  "getMeals samplePage = JArr sampleMeals \<and> JNull \<notin> set sampleMeals
   \<and> list_all (\<lambda>m. getProp m ''id'' \<noteq> Some (JStr ''zz'')) sampleMeals
   \<and> getTasks ''cleaning'' samplePage = JArr sampleTasks \<and> JNull \<notin> set sampleTasks
   \<and> list_all (\<lambda>m. getProp m ''id'' \<noteq> Some (JStr ''zz'')) sampleTasks
   \<and> getShoppingList samplePage = JArr sampleItems \<and> JNull \<notin> set sampleItems
   \<and> list_all (\<lambda>m. getProp m ''id'' \<noteq> Some (JStr ''zz'')) sampleItems
   \<and> updateMeal ''zz'' (JObj [(''title'', JStr ''Pie'')]) samplePage = (Inr JNull, samplePage)
   \<and> toggleTaskComplete utcZone ''2026-01-01T00:00:00.000Z'' ''zz'' ''cleaning'' samplePage
       = (Inr JNull, samplePage)
   \<and> toggleItemChecked ''zz'' samplePage = (Inr False, samplePage)"
proof -
  have h: "JNull \<notin> set sampleMeals \<and> (\<forall>m\<in>set sampleMeals. getProp m ''id'' \<noteq> Some (JStr ''zz''))"
      "JNull \<notin> set sampleTasks \<and> (\<forall>m\<in>set sampleTasks. getProp m ''id'' \<noteq> Some (JStr ''zz''))"
      "JNull \<notin> set sampleItems \<and> (\<forall>m\<in>set sampleItems. getProp m ''id'' \<noteq> Some (JStr ''zz''))"
    by (simp_all add: sampleMeals_def sampleTasks_def sampleItems_def)
  show ?thesis
    using h C9_not_found_changes_nothing [where w = samplePage and i = "''zz''"
        and ms = sampleMeals and ts = sampleTasks and its = sampleItems and ttype = "''cleaning''"
        and e = utcZone and now = "''2026-01-01T00:00:00.000Z''" and d = "JObj [(''title'', JStr ''Pie'')]"]
    by (simp add: sample_lists list_all_iff)
qed

subsection \<open>C10: the fields the add operations set\<close>

text \<open>An add operation throws when what is stored under its section is not a list.\<close>

lemma add_throws:
  "((\<forall>ms. getMeals w \<noteq> JArr ms) \<longrightarrow> addMeal newId now d w = (Inl TypeError, w))
   \<and> ((\<forall>ms. getTasks ttype w \<noteq> JArr ms) \<longrightarrow> addTask newId now d ttype w = (Inl TypeError, w))
   \<and> ((\<forall>ms. getShoppingList w \<noteq> JArr ms) \<longrightarrow> addShoppingItem newId now d w = (Inl TypeError, w))"
  by (auto simp: addMeal_def addTask_def addShoppingItem_def Let_def split: json.splits)

text \<open>
  C10.  Over a stored list, for every input \<open>d\<close>, also one that names these fields itself:
  \<^verbatim>\<open>addMeal\<close> returns a record with \<^verbatim>\<open>lastMade = null\<close>, \<^verbatim>\<open>addTask\<close> one with
  \<^verbatim>\<open>completed = false\<close> and \<^verbatim>\<open>lastCompleted = null\<close>, \<^verbatim>\<open>addShoppingItem\<close> one with
  \<^verbatim>\<open>checked = false\<close>.
\<close>

theorem C10_add_sets_lifecycle_fields:
  "(getMeals w = JArr ms \<longrightarrow>
      (\<exists>m w'. addMeal newId now d w = (Inr m, w') \<and> getProp m ''lastMade'' = Some JNull))
   \<and> (getTasks ttype w = JArr ts \<longrightarrow>
      (\<exists>t w'. addTask newId now d ttype w = (Inr t, w')
          \<and> getProp t ''completed'' = Some (JBool False)
          \<and> getProp t ''lastCompleted'' = Some JNull))
   \<and> (getShoppingList w = JArr its \<longrightarrow>
      (\<exists>it w'. addShoppingItem newId now d w = (Inr it, w')
          \<and> getProp it ''checked'' = Some (JBool False)))"
  by (simp add: addMeal_def addTask_def addShoppingItem_def Let_def update_conv' getProp_def)

theorem C10_add_witness:
  "getMeals samplePage = JArr sampleMeals
   \<and> (\<exists>w'. addMeal ''id7'' ''2026-01-01T00:00:00.000Z''
             (JObj [(''title'', JStr ''Soup''), (''lastMade'', JStr ''2025-12-24'')]) samplePage
       = (Inr (JObj [(''id'', JStr ''id7''), (''title'', JStr ''Soup''), (''lastMade'', JNull),
                     (''dateAdded'', JStr ''2026-01-01T00:00:00.000Z'')]), w'))
   \<and> (\<exists>w'. addTask ''id8'' ''2026-01-01T00:00:00.000Z''
             (JObj [(''name'', JStr ''Dust''), (''completed'', JBool True),
                    (''lastCompleted'', JStr ''2025-12-24'')]) ''cleaning'' samplePage
       = (Inr (JObj [(''id'', JStr ''id8''), (''name'', JStr ''Dust''), (''completed'', JBool False),
                     (''lastCompleted'', JNull),
                     (''createdDate'', JStr ''2026-01-01T00:00:00.000Z'')]), w'))
   \<and> (\<exists>w'. addShoppingItem ''id9'' ''2026-01-01T00:00:00.000Z''
             (JObj [(''name'', JStr ''Salt''), (''checked'', JBool True)]) samplePage
       = (Inr (JObj [(''id'', JStr ''id9''), (''name'', JStr ''Salt''), (''checked'', JBool False),
                     (''addedDate'', JStr ''2026-01-01T00:00:00.000Z'')]), w'))"
  using C10_add_sets_lifecycle_fields [where w = samplePage and ms = sampleMeals
      and ts = sampleTasks and its = sampleItems and ttype = "''cleaning''" and newId = "''id7''"
      and now = "''2026-01-01T00:00:00.000Z''"
      and d = "JObj [(''title'', JStr ''Soup''), (''lastMade'', JStr ''2025-12-24'')]"]
  by (simp add: sample_lists addMeal_def addTask_def addShoppingItem_def spread_def Let_def)

subsection \<open>C8: the path of a saved meal\<close>

lemma replaceNonWord_word_prefix:
  "\<forall>x\<in>set p. isWordChar x \<Longrightarrow> replaceNonWord (p @ r) = p @ replaceNonWord r"
  by (induction p) auto

lemma replaceNonWord_collapseSpec: "replaceNonWord s = collapseSpec s"
proof (induction s rule: runsOf.induct)
  case 1
  show ?case by (simp add: collapseSpec_def)
next
  case (2 c cs)
  show ?case
  proof (cases "isWordChar c")
    case True
    have "replaceNonWord (c # cs) =
            c # replaceNonWord (takeWhile isWordChar cs @ dropWhile isWordChar cs)"
      using True by simp
    also have "\<dots> = c # takeWhile isWordChar cs @ replaceNonWord (dropWhile isWordChar cs)"
      by (subst replaceNonWord_word_prefix) (auto dest: set_takeWhileD)
    finally show ?thesis
      using True 2 by (simp add: collapseSpec_def)
  next
    case False
    then show ?thesis
      using 2 by (simp add: collapseSpec_def)
  qed
qed

text \<open>
  C8.  For every request body with a text \<^verbatim>\<open>type\<close> and a text \<^verbatim>\<open>title\<close>, the path is
  \<^verbatim>\<open>meals/\<close>, the type in lower case, \<^verbatim>\<open>/\<close>, the slug of the title as C8 words it, and
  \<^verbatim>\<open>.json\<close>; for the title \<^verbatim>\<open>Spicy Tofu!\<close> and the type \<^verbatim>\<open>Dinner\<close> it is
  \<^verbatim>\<open>meals/dinner/spicy-tofu.json\<close>.
\<close>

theorem C8_save_meal_path:
  "(getProp meal ''type'' = Some (JStr ty) \<and> getProp meal ''title'' = Some (JStr title)
      \<longrightarrow> filePath meal = Inr (''meals/'' @ lowerSpec ty @ ''/'' @ slugSpec title @ ''.json''))
   \<and> filePath (JObj [(''title'', JStr ''Spicy Tofu!''), (''type'', JStr ''Dinner'')])
       = Inr ''meals/dinner/spicy-tofu.json''"
proof -
  have "slugify t = slugSpec t @ ''.json''" for t
    by (simp add: slugify_def slugSpec_def trimSpec_def trimHyphens_def replaceNonWord_collapseSpec
          toLowerCase_lowerSpec)
  moreover have "filePath (JObj [(''title'', JStr ''Spicy Tofu!''), (''type'', JStr ''Dinner'')])
       = Inr ''meals/dinner/spicy-tofu.json''"
    by (simp add: filePath_def slugify_def toLowerCase_def lowerChar_def upperChars_def
          lowerChars_def trimHyphens_def isWordChar_def)
  ultimately show ?thesis
    by (simp add: filePath_def toLowerCase_lowerSpec)
qed

text \<open>An instance with letters of Latin-1: the type \<^verbatim>\<open>D\<close>, \<^verbatim>\<open>U+00CE\<close>, \<^verbatim>\<open>NER\<close> and a title
  that holds \<^verbatim>\<open>U+00C8\<close>.  The type keeps its letter, in lower case (\<^verbatim>\<open>U+00EE\<close>); in the slug
  the letter, which is no word character, is part of a run that becomes a hyphen.\<close>

theorem C8_save_meal_path_witness:
  "getProp (JObj [(''title'', JStr (''  Cr'' @ [CHR 0xC8] @ ''me & Cheese (v2)'')),
                  (''type'', JStr (''D'' @ [CHR 0xCE] @ ''NER''))]) ''type''
     = Some (JStr (''D'' @ [CHR 0xCE] @ ''NER''))
   \<and> getProp (JObj [(''title'', JStr (''  Cr'' @ [CHR 0xC8] @ ''me & Cheese (v2)'')),
                    (''type'', JStr (''D'' @ [CHR 0xCE] @ ''NER''))]) ''title''
     = Some (JStr (''  Cr'' @ [CHR 0xC8] @ ''me & Cheese (v2)''))
   \<and> lowerSpec (''D'' @ [CHR 0xCE] @ ''NER'') = ''d'' @ [CHR 0xEE] @ ''ner''
   \<and> slugSpec (''  Cr'' @ [CHR 0xC8] @ ''me & Cheese (v2)'') = ''cr-me-cheese-v2''
   \<and> filePath (JObj [(''title'', JStr (''  Cr'' @ [CHR 0xC8] @ ''me & Cheese (v2)'')),
                     (''type'', JStr (''D'' @ [CHR 0xCE] @ ''NER''))])
       = Inr (''meals/d'' @ [CHR 0xEE] @ ''ner/cr-me-cheese-v2.json'')"
proof -
  have t: "lowerSpec (''D'' @ [CHR 0xCE] @ ''NER'') = ''d'' @ [CHR 0xEE] @ ''ner''"
    by (simp add: lower_defs)
  have s: "slugSpec (''  Cr'' @ [CHR 0xC8] @ ''me & Cheese (v2)'') = ''cr-me-cheese-v2''"
    by (simp add: slugSpec_def trimSpec_def collapseSpec_def lower_defs isWordChar_def)
  show ?thesis
    using C8_save_meal_path [where meal = "JObj [(''title'', JStr (''  Cr'' @ [CHR 0xC8] @ ''me & Cheese (v2)'')),
        (''type'', JStr (''D'' @ [CHR 0xCE] @ ''NER''))]" and ty = "''D'' @ [CHR 0xCE] @ ''NER''"
        and title = "''  Cr'' @ [CHR 0xC8] @ ''me & Cheese (v2)''"] s t
    by simp
qed

subsection \<open>C3: the next due date\<close>

lemma monthOfYearDay_range: "0 \<le> monthOfYearDay leap dw \<and> monthOfYearDay leap dw \<le> 11"
proof -
  have "length (filter (\<lambda>m. daysBeforeMonth leap m \<le> dw) [1, 2, 3, 4, 5, 6, 7, 8, 9, 10, 11])
          \<le> length [1, 2, 3, 4, 5, 6, 7, 8, 9, 10, 11::int]"
    by (rule length_filter_le)
  then show ?thesis
    by (simp add: monthOfYearDay_def)
qed

text \<open>Setting the day of the month to the present one plus \<open>n\<close> moves the day by \<open>n\<close>.\<close>

lemma makeDay_of_date:
  "makeDay (yearFromTime t) (monthFromTime t) (dateFromTime t + n) = dayOf t + n"
proof -
  have m: "0 \<le> monthFromTime t \<and> monthFromTime t \<le> 11"
    by (simp add: monthFromTime_def monthOfYearDay_range)
  then have "monthFromTime t div 12 = 0" "monthFromTime t mod 12 = monthFromTime t"
    by simp_all
  then show ?thesis
    by (simp add: makeDay_def dateFromTime_def dayWithinYear_def Let_def)
qed

text \<open>Where local time has one offset from UTC throughout, \<^verbatim>\<open>setDate(getDate() + n)\<close>
  adds \<open>n\<close> days to the time value.\<close>

lemma setDate_getDate_fixed_offset:
  assumes "\<forall>u. tzaOfUTC e u = c" and "\<forall>u. tzaOfLocal e u = c"
  shows "setDate e t (getDate e t + n) = timeClip (t + n * msPerDay)"
proof -
  have "(dayOf (t + c) + n) * msPerDay + timeWithinDay (t + c) = t + c + n * msPerDay"
    by (simp add: dayOf_def timeWithinDay_def algebra_simps)
  then show ?thesis
    using assms by (simp add: setDate_def getDate_def makeDay_of_date Let_def)
qed

lemma digitVal_range: "digitVal c = Some d \<Longrightarrow> 0 \<le> d \<and> d \<le> 9"
  by (auto simp: digitVal_def split: if_splits)

lemma digitsVal4_range:
  assumes "digitsVal 0 [a, b, c, d] = Some y"
  shows "0 \<le> y \<and> y \<le> 9999"
  using assms
  by (auto simp: split: option.splits dest!: digitVal_range)

lemma daysBeforeMonth_range:
  "0 \<le> m \<Longrightarrow> m \<le> 11 \<Longrightarrow> 0 \<le> daysBeforeMonth leap m \<and> daysBeforeMonth leap m \<le> 335"
proof -
  assume "0 \<le> m" "m \<le> 11"
  then have "m \<in> {0, 1, 2, 3, 4, 5, 6, 7, 8, 9, 10, 11}"
    by simp presburger
  then show ?thesis
    by (auto simp: daysBeforeMonth_def)
qed

lemma parseDateOnly_range:
  assumes "parseDateOnly s = Some t"
  shows "- 62200000000000 \<le> t \<and> t \<le> 253500000000000"
proof -
  obtain y1 y2 y3 y4 s1 m1 m2 s2 d1 d2 where s: "s = [y1, y2, y3, y4, s1, m1, m2, s2, d1, d2]"
    using assms by (cases s rule: parseDateOnly.cases) auto
  obtain y m d where p: "digitsVal 0 [y1, y2, y3, y4] = Some y" "1 \<le> m" "m \<le> 12" "1 \<le> d"
      "d \<le> daysInMonth y m" "t = makeDay y (m - 1) d * msPerDay"
    using assms unfolding s
    by (simp only: parseDateOnly.simps split: if_splits option.splits prod.splits) auto
  have y: "0 \<le> y \<and> y \<le> 9999"
    using p(1) by (rule digitsVal4_range)
  have d: "d \<le> 31"
    using p(5) by (simp add: daysInMonth_def split: if_splits)
  have md: "(m - 1) div 12 = 0" "(m - 1) mod 12 = m - 1"
    using p(2,3) by simp_all
  have b: "0 \<le> daysBeforeMonth (inLeapYear y) (m - 1)
             \<and> daysBeforeMonth (inLeapYear y) (m - 1) \<le> 335"
    using p(2,3) by (intro daysBeforeMonth_range) simp_all
  have "- 719900 \<le> dayFromYear y \<and> dayFromYear y \<le> 2932900"
    using y by (simp add: dayFromYear_def) linarith
  then have "- 719900 \<le> makeDay y (m - 1) d \<and> makeDay y (m - 1) d \<le> 2933270"
    using b d p(4) by (simp add: makeDay_def md Let_def)
  then show ?thesis
    unfolding p(6) msPerDay_def by linarith
qed

lemma offsetOf_table:
  "offsetOf (Some (JStr ''daily'')) = Some 1"
  "offsetOf (Some (JStr ''weekly'')) = Some 7"
  "offsetOf (Some (JStr ''fortnightly'')) = Some 14"
  "offsetOf (Some (JStr ''monthly'')) = Some 30"
  "offsetOf (Some (JStr ''quarterly'')) = Some 90"
  "offsetOf (Some (JStr ''yearly'')) = Some 365"
  by (simp_all add: offsetOf_def freq_def)

lemma offsetOf_range: "offsetOf f = Some n \<Longrightarrow> 0 \<le> n \<and> n \<le> 365"
  by (auto simp: offsetOf_def freq_def split: option.splits if_splits)

text \<open>
  Where local time has one offset from UTC throughout, the next due date of a date-only due
  date is the ISO date \<open>n\<close> days after it, \<open>n\<close> being the offset of the frequency (7 for a
  frequency without an entry in the table).
\<close>

lemma calculateNextDueDate_fixed_offset:
  assumes "\<forall>u. tzaOfUTC e u = c" and "\<forall>u. tzaOfLocal e u = c"
    and "parseDateOnly s = Some t" and "offsetOf f = Some n"
  shows "calculateNextDueDate e (Some (JStr s)) f = Inr (toISODate (t + n * msPerDay))"
proof -
  have "\<bar>t + n * msPerDay\<bar> \<le> 8640000000000000"
    using parseDateOnly_range [OF assms(3)] offsetOf_range [OF assms(4)]
    unfolding msPerDay_def by linarith
  then show ?thesis
    using assms by (simp add: calculateNextDueDate_def setDate_getDate_fixed_offset timeClip_def)
qed

lemma calculateNextDueDate_weekly_example:
  "calculateNextDueDate utcZone (Some (JStr ''2024-01-01'')) (Some (JStr ''weekly'')) = Inr ''2024-01-08''"
  "calculateNextDueDate londonZone (Some (JStr ''2024-01-01'')) (Some (JStr ''weekly'')) = Inr ''2024-01-08''"
  by code_simp+

lemma findById_Some:
  "findById i xs = Inr (Some k) \<Longrightarrow> k < length xs \<and> getProp (xs ! k) ''id'' = Some (JStr i)"
  by (induction xs arbitrary: k) (auto split: if_splits sum.splits option.splits)

text \<open>
  Where local time has one offset from UTC throughout: completing an incomplete task whose
  frequency is not \<^verbatim>\<open>'once'\<close> and whose due date is a date-only text sets the due date to
  the ISO date \<open>n\<close> days after the previous due date, whatever the time of completion
  \<open>now\<close>, and leaves \<^verbatim>\<open>completed = false\<close>.
\<close>

lemma toggle_recurring_fixed_offset:
  assumes zone: "\<forall>u. tzaOfUTC e u = c" "\<forall>u. tzaOfLocal e u = c"
    and tasks: "getTasks ttype w = JArr ts" "findById i ts = Inr (Some k)"
    and task: "\<not> otruthy (getProp (ts ! k) ''completed'')"
      "getProp (ts ! k) ''frequency'' \<noteq> Some (JStr ''once'')"
      "offsetOf (getProp (ts ! k) ''frequency'') = Some n"
      "getProp (ts ! k) ''dueDate'' = Some (JStr s)" "parseDateOnly s = Some t"
  shows "\<exists>task. fst (toggleTaskComplete e now i ttype w) = Inr task
           \<and> getProp task ''dueDate'' = Some (JStr (toISODate (t + n * msPerDay)))
           \<and> getProp task ''completed'' = Some (JBool False)"
  using assms
  by (simp add: toggleTaskComplete_def recurs_def calculateNextDueDate_fixed_offset Let_def
        update_conv' getProp_def)

text \<open>Completing an incomplete task of frequency \<^verbatim>\<open>'once'\<close> leaves it completed, with the
  due date it had.\<close>

lemma toggle_once:
  assumes tasks: "getTasks ttype w = JArr ts" "findById i ts = Inr (Some k)"
    and task: "\<not> otruthy (getProp (ts ! k) ''completed'')"
      "getProp (ts ! k) ''frequency'' = Some (JStr ''once'')"
  shows "\<exists>task. fst (toggleTaskComplete e now i ttype w) = Inr task
           \<and> getProp task ''dueDate'' = getProp (ts ! k) ''dueDate''
           \<and> getProp task ''completed'' = Some (JBool True)"
  using assms
  by (simp add: toggleTaskComplete_def recurs_def flipped_def Let_def update_conv' getProp_def)

text \<open>
  C3 fails on the code where the offset of local time changes between the due date and the
  next one.  \<^verbatim>\<open>new Date('2024-03-25')\<close> is midnight UTC, \<^verbatim>\<open>setDate(getDate() + 7)\<close> moves
  the local date to midnight of 1 April in local time, which in London is 23:00 UTC of
  31 March, and \<^verbatim>\<open>toISOString()\<close> gives the UTC date.  The weekly task of the sample
  store, due 2024-03-25, is given the due date 2024-03-31; seven days after 2024-03-25 is
  2024-04-01.
\<close>

theorem C3_weekly_task_across_clock_change:
  "fst (toggleTaskComplete londonZone ''2024-03-26T09:00:00.000Z'' ''t1'' ''cleaning'' samplePage)
     = Inr (JObj [(''id'', JStr ''t1''), (''name'', JStr ''Hoover''), (''frequency'', JStr ''weekly''),
                  (''dueDate'', JStr ''2024-03-31''), (''completed'', JBool False),
                  (''lastCompleted'', JStr ''2024-03-26T09:00:00.000Z'')])
   \<and> parseDateOnly ''2024-03-25'' = Some 1711324800000
   \<and> toISODate (1711324800000 + 7 * msPerDay) = ''2024-04-01''"
proof -
  have 1: "calculateNextDueDate londonZone (Some (JStr ''2024-03-25'')) (Some (JStr ''weekly''))
             = Inr ''2024-03-31''"
    by code_simp
  have 2: "parseDateOnly ''2024-03-25'' = Some 1711324800000"
    by code_simp
  have 3: "toISODate (1711324800000 + 7 * msPerDay) = ''2024-04-01''"
    by code_simp
  have 4: "fst (toggleTaskComplete londonZone ''2024-03-26T09:00:00.000Z'' ''t1'' ''cleaning'' samplePage)
     = Inr (JObj [(''id'', JStr ''t1''), (''name'', JStr ''Hoover''), (''frequency'', JStr ''weekly''),
                  (''dueDate'', JStr ''2024-03-31''), (''completed'', JBool False),
                  (''lastCompleted'', JStr ''2024-03-26T09:00:00.000Z'')])"
    by (simp add: toggleTaskComplete_def sample_lists sampleTasks_def recurs_def flipped_def 1 Let_def)
  show ?thesis
    by (rule conjI [OF 4 conjI [OF 2 3]])
qed

subsection \<open>C5: the weekly plan\<close>

lemma entry_update:
  "(k', v') \<in> set (AList.update k v al) \<Longrightarrow> (k', v') = (k, v) \<or> (k', v') \<in> set al"
  by (induction al) (auto split: if_splits)

lemma entry_fold_copy:
  "(k', v') \<in> set (fold (\<lambda>k acc. case map_of src k of Some v \<Rightarrow> AList.update k v acc | None \<Rightarrow> acc) ks a)
     \<Longrightarrow> (k', v') \<in> set a \<or> (k', v') \<in> set src"
  by (induction ks arbitrary: a) (auto split: option.splits dest!: entry_update map_of_SomeD)

lemma entry_spread: "(k, v) \<in> set (spread a b) \<Longrightarrow> (k, v) \<in> set a \<or> (k, v) \<in> set b"
  unfolding spread_def by (rule entry_fold_copy)

lemma keys_spread: "fst ` set (spread a b) = fst ` set a \<union> fst ` set b"
proof -
  have "dom (map_of (spread a b)) = dom (map_of a) \<union> dom (map_of b)"
    by (auto simp: map_of_spread dom_def split: option.splits)
  then show ?thesis
    by (simp add: dom_map_of_conv_image_fst)
qed

lemma distinct_fold_copy:
  "distinct (map fst a) \<Longrightarrow>
     distinct (map fst (fold (\<lambda>k acc. case map_of src k of Some v \<Rightarrow> AList.update k v acc | None \<Rightarrow> acc) ks a))"
  by (induction ks arbitrary: a) (auto split: option.splits intro: distinct_update)

lemma distinct_spread: "distinct (map fst a) \<Longrightarrow> distinct (map fst (spread a b))"
  unfolding spread_def by (rule distinct_fold_copy)

lemma getWeeklyPlan_merged: "planBase w \<Longrightarrow> getWeeklyPlan w = JObj (mergedPlan w)"
  by (cases "parsedDoc w")
     (auto simp: planBase_def getWeeklyPlan_def getData_def loadData_def mergedPlan_def
        defaultPlan_def update_conv')

lemma mergedPlan_keys:
  assumes "planBase w"
  shows "distinct (map fst (mergedPlan w))" and "set DAYS \<subseteq> fst ` set (mergedPlan w)"
proof -
  obtain dkvs dplan where d: "defaults w = JObj dkvs" "map_of dkvs ''weeklyPlan'' = Some (JObj dplan)"
      "distinct (map fst dplan)" "set DAYS \<subseteq> fst ` set dplan"
    using assms unfolding planBase_def by blast
  have dp: "defaultPlan w = dplan"
    by (simp add: defaultPlan_def d)
  show "distinct (map fst (mergedPlan w))"
    by (cases "parsedDoc w") (simp_all add: mergedPlan_def dp d(3) distinct_spread)
  show "set DAYS \<subseteq> fst ` set (mergedPlan w)"
    using d(4) by (cases "parsedDoc w") (auto simp: mergedPlan_def dp keys_spread)
qed

lemma mergedPlan_entries:
  assumes "entriesOk E w" and "(k, v) \<in> set (mergedPlan w)"
  shows "E k v"
proof (cases "parsedDoc w")
  case None
  then show ?thesis
    using assms by (auto simp: entriesOk_def mergedPlan_def)
next
  case (Some d)
  then have "(k, v) \<in> set (defaultPlan w) \<or> (k, v) \<in> set (oprops (getProp d ''weeklyPlan''))"
    using assms(2) by (auto simp: mergedPlan_def dest!: entry_spread)
  then show ?thesis
    using assms(1) Some by (auto simp: entriesOk_def)
qed

lemma listShared_plan: "planBase w \<Longrightarrow> listShared ''weeklyPlan'' w = (parsedDoc w = None)"
  by (cases "parsedDoc w")
     (auto simp: listShared_def sectionShared_def planBase_def getData_def loadData_def)

lemma defaults_saveData [simp]: "defaults (snd (saveData d w)) = defaults w"
  by (simp add: saveData_def split: outcome.splits)

lemma parsedDoc_saveData:
  "parsedDoc (snd (saveData (JObj kvs) w)) = parsedDoc w
   \<or> parsedDoc (snd (saveData (JObj kvs) w)) = Some (JObj kvs)"
  by (simp add: saveData_def parsedDoc_def split: outcome.splits)

lemma good_saved:
  assumes "good E w" and "\<forall>(k, v)\<in>set (oprops (map_of kvs ''weeklyPlan'')). E k v"
  shows "good E (snd (saveData (JObj kvs) w))"
proof -
  have p: "planBase (snd (saveData (JObj kvs) w))"
    using assms(1) by (simp add: good_def planBase_def)
  have dp: "defaultPlan (snd (saveData (JObj kvs) w)) = defaultPlan w"
    by (simp add: defaultPlan_def)
  have e: "entriesOk E w"
    using assms(1) by (simp add: good_def)
  have "entriesOk E (snd (saveData (JObj kvs) w))"
    using parsedDoc_saveData [of kvs w]
  proof
    assume "parsedDoc (snd (saveData (JObj kvs) w)) = parsedDoc w"
    then show ?thesis
      using e by (simp add: entriesOk_def dp)
  next
    assume "parsedDoc (snd (saveData (JObj kvs) w)) = Some (JObj kvs)"
    then show ?thesis
      using e assms(2) by (simp add: entriesOk_def dp)
  qed
  then show ?thesis
    using p by (simp add: good_def)
qed

lemma good_showSuccess [simp]: "good E (showSuccess m w) = good E w"
  by (simp add: good_def planBase_def entriesOk_def defaultPlan_def showSuccess_def parsedDoc_def)

lemma good_updateData:
  assumes "good E w" and "\<forall>(k, v)\<in>set p. E k v"
  shows "good E (snd (updateData ''weeklyPlan'' (JObj p) w))"
proof -
  obtain kvs where l: "loadData w = JObj kvs"
    using loadData_JObj by blast
  show ?thesis
    using assms by (simp add: updateData_def l good_saved update_conv')
qed

lemma good_commit:
  assumes "good E w" and "\<forall>(k, v)\<in>set p. E k v"
  shows "good E (showSuccess m (snd (updateData ''weeklyPlan'' (JObj p) w)))"
  using assms by (simp add: good_updateData)

lemma good_writeDefault:
  assumes "good E w" and "distinct (map fst p)" and "set DAYS \<subseteq> fst ` set p"
    and "\<forall>(k, v)\<in>set p. E k v"
  shows "good E (writeDefault ''weeklyPlan'' (JObj p) w)"
  using assms
  by (auto simp: good_def planBase_def entriesOk_def defaultPlan_def writeDefault_def parsedDoc_def
        update_conv')

lemma good_mutated:
  assumes "good E w" and "distinct (map fst p)" and "set DAYS \<subseteq> fst ` set p"
    and "\<forall>(k, v)\<in>set p. E k v"
  shows "good E (mutated ''weeklyPlan'' (JObj p) w)"
  using assms by (simp add: mutated_def good_writeDefault)

lemma update_entries:
  "\<forall>(k, v)\<in>set p. E k v \<Longrightarrow> E day x \<Longrightarrow> \<forall>(k, v)\<in>set (AList.update day x p). E k v"
  by (auto dest!: entry_update)

lemma update_days: "set DAYS \<subseteq> fst ` set p \<Longrightarrow> set DAYS \<subseteq> fst ` set (AList.update day x p)"
  by (auto simp: dom_update)

lemma good_pushed:
  assumes "good E w" and "distinct (map fst p)" and "set DAYS \<subseteq> fst ` set p"
    and "\<forall>(k, v)\<in>set p. E k v" and "E day x"
  shows "good E (pushed day x (JObj p) w)"
proof -
  obtain dkvs dplan where d: "defaults w = JObj dkvs" "map_of dkvs ''weeklyPlan'' = Some (JObj dplan)"
      "distinct (map fst dplan)" "set DAYS \<subseteq> fst ` set dplan"
    using assms(1) unfolding good_def planBase_def by blast
  have e: "\<forall>(k, v)\<in>set dplan. E k v"
    using assms(1) by (simp add: good_def entriesOk_def defaultPlan_def d)
  have "good E (writeDefault ''weeklyPlan'' (JObj (AList.update day x dplan)) w)"
    using assms(1) d(3,4) e assms(5)
    by (intro good_writeDefault distinct_update update_days update_entries)
  then show ?thesis
    using assms by (simp add: pushed_def good_writeDefault d)
qed

lemma good_plan_entries:
  assumes "good E w"
  shows "getWeeklyPlan w = JObj (mergedPlan w)" and "distinct (map fst (mergedPlan w))"
    and "set DAYS \<subseteq> fst ` set (mergedPlan w)" and "\<forall>(k, v)\<in>set (mergedPlan w). E k v"
  using assms mergedPlan_entries [of E w]
  by (auto simp: good_def getWeeklyPlan_merged mergedPlan_keys)

lemma good_planProto [simp]: "good E (w\<lparr>planProto := x\<rparr>) = good E w"
  by (simp add: good_def planBase_def entriesOk_def defaultPlan_def parsedDoc_def)

lemma parsedDoc_planProto [simp]: "parsedDoc (w\<lparr>planProto := x\<rparr>) = parsedDoc w"
  by (simp add: parsedDoc_def)

lemma loadData_planProto [simp]: "loadData (w\<lparr>planProto := x\<rparr>) = loadData w"
  by (cases "parsedDoc w") (simp_all add: loadData_def)

lemma getWeeklyPlan_planProto [simp]: "getWeeklyPlan (w\<lparr>planProto := x\<rparr>) = getWeeklyPlan w"
  by (simp add: getWeeklyPlan_def getData_def)

text \<open>What the plan inherits is a text or a number: a list under a day is the plan's own.\<close>

lemma inherited_no_list: "inherited proto day \<noteq> Value (JArr xs)"
  by (auto simp: inherited_def split: option.splits dest!: map_of_SomeD set_zip_rightD)

lemma planGet_list:
  "planGet w (JObj p) day = Value (JArr xs) \<Longrightarrow> map_of p day = Some (JArr xs)"
  using inherited_no_list by (auto simp: planGet_def split: option.splits)

lemma good_proto_commit:
  assumes "good E w"
  shows "good E (showSuccess m (snd (updateData ''weeklyPlan'' (JObj (mergedPlan w))
                  (w\<lparr>planProto := x\<rparr>))))"
proof -
  have "\<forall>(k, v)\<in>set (mergedPlan w). E k v"
    using good_plan_entries(4) [OF assms] .
  then show ?thesis
    using assms by (intro good_commit) simp_all
qed

lemma good_addMealToDay:
  assumes "good E w" and "admits E (AddMealToDay day mealId)"
  shows "good E (snd (addMealToDay day mealId w))"
proof -
  note g = good_plan_entries [OF assms(1)]
  let ?p = "mergedPlan w"
  have fresh: "good E (showSuccess m (snd (updateData ''weeklyPlan''
                  (JObj (AList.update day (JArr [JStr mealId]) ?p))
                  (mutated ''weeklyPlan'' (JObj (AList.update day (JArr [JStr mealId]) ?p)) w))))" for m
    using assms g
    by (intro good_commit good_mutated distinct_update update_days update_entries) simp_all
  have push: "good E (showSuccess m (snd (updateData ''weeklyPlan''
                  (JObj (AList.update day (JArr (xs @ [JStr mealId])) ?p))
                  (pushed day (JArr (xs @ [JStr mealId]))
                     (JObj (AList.update day (JArr (xs @ [JStr mealId])) ?p)) w))))"
    if "map_of ?p day = Some (JArr xs)" "JStr mealId \<notin> set xs" for m xs
  proof -
    have "E day (JArr xs)"
      using that(1) g(4) by (auto dest!: map_of_SomeD)
    then have "E day (JArr (xs @ [JStr mealId]))"
      using assms(2) that(2) by simp
    then show ?thesis
      using assms g
      by (intro good_commit good_pushed distinct_update update_days update_entries) simp_all
  qed
  show ?thesis
  proof (cases "planGet w (JObj ?p) day")
    case (Value v)
    show ?thesis
    proof (cases v)
      case (JArr xs)
      then have "map_of ?p day = Some (JArr xs)"
        using Value by (intro planGet_list) simp
      then show ?thesis
        using assms(1) push Value JArr by (simp add: addMealToDay_def g(1) Let_def)
    qed (use assms(1) fresh Value in \<open>simp_all add: addMealToDay_def g(1) Let_def\<close>)
  next
    case (ProtoArray ids)
    then show ?thesis
      using assms(1) good_proto_commit [OF assms(1)] by (simp add: addMealToDay_def g(1) Let_def)
  qed (use assms(1) fresh in \<open>simp_all add: addMealToDay_def g(1) Let_def\<close>)
qed

lemma good_removeMealFromDay:
  assumes "good E w" and "admits E (RemoveMealFromDay day mealId)"
  shows "good E (snd (removeMealFromDay day mealId w))"
proof -
  note g = good_plan_entries [OF assms(1)]
  let ?p = "mergedPlan w"
  have filtered: "good E (showSuccess m (snd (updateData ''weeklyPlan''
                  (JObj (AList.update day (JArr (filter (\<lambda>x. x \<noteq> JStr mealId) xs)) ?p))
                  (mutated ''weeklyPlan''
                     (JObj (AList.update day (JArr (filter (\<lambda>x. x \<noteq> JStr mealId) xs)) ?p)) w))))"
    if "map_of ?p day = Some (JArr xs)" for m xs
  proof -
    have "E day (JArr xs)"
      using that g(4) by (auto dest!: map_of_SomeD)
    then have "E day (JArr (filter (\<lambda>x. x \<noteq> JStr mealId) xs))"
      using assms(2) by simp
    then show ?thesis
      using assms g
      by (intro good_commit good_mutated distinct_update update_days update_entries) simp_all
  qed
  show ?thesis
  proof (cases "planGet w (JObj ?p) day")
    case (Value v)
    show ?thesis
    proof (cases v)
      case (JArr xs)
      then have "map_of ?p day = Some (JArr xs)"
        using Value by (intro planGet_list) simp
      then show ?thesis
        using filtered Value JArr by (simp add: removeMealFromDay_def g(1) Let_def)
    qed (use assms(1) Value in \<open>simp_all add: removeMealFromDay_def g(1) Let_def\<close>)
  next
    case (ProtoArray ids)
    then show ?thesis
      using good_proto_commit [OF assms(1)] by (simp add: removeMealFromDay_def g(1) Let_def)
  qed (use assms(1) in \<open>simp_all add: removeMealFromDay_def g(1) Let_def\<close>)
qed

lemma good_clearDay:
  assumes "good E w" and "admits E (ClearDay day)"
  shows "good E (clearDay day w)"
proof (cases "day = ''__proto__'' \<and> map_of (mergedPlan w) day = None")
  case True
  note g = good_plan_entries [OF assms(1)]
  have "day = ''__proto__''" "map_of (mergedPlan w) ''__proto__'' = None"
    using True by blast+
  then show ?thesis
    using good_proto_commit [OF assms(1)] good_updateData [OF assms(1) g(4)]
    by (simp add: clearDay_def g(1) Let_def)
next
  case False
  note g = good_plan_entries [OF assms(1)]
  have "good E (showSuccess m (snd (updateData ''weeklyPlan''
                  (JObj (AList.update day (JArr []) (mergedPlan w)))
                  (mutated ''weeklyPlan'' (JObj (AList.update day (JArr []) (mergedPlan w))) w))))" for m
    using assms g
    by (intro good_commit good_mutated distinct_update update_days update_entries) simp_all
  then show ?thesis
    using False by (auto simp: clearDay_def g(1) Let_def)
qed

lemma good_clearWeek:
  assumes "good E w" and "admits E ClearWeek"
  shows "good E (clearWeek w)"
  using assms by (simp add: clearWeek_def DAYS_def Let_def good_updateData)

text \<open>An import saves the plan of the file laid over the default plan.\<close>

lemma good_importData:
  assumes "good E w" and "admits E (Import f)"
  shows "good E (snd (importData f w))"
proof (cases "\<exists>d. f = Content (Parsed d) \<and> truthy d \<and> \<not> isPrim d")
  case False
  then have "snd (importData f w) = w"
    by (auto simp: importData_def split: upload.splits stored.splits)
  then show ?thesis
    using assms(1) by simp
next
  case True
  then obtain d where d: "f = Content (Parsed d)" "truthy d" "\<not> isPrim d"
    by blast
  let ?plan = "spread (spread [] (defaultPlan w)) (oprops (getProp d ''weeklyPlan''))"
  let ?kvs = "AList.update ''settings''
                  (JObj (spread (spread [] (oprops (getProp (defaults w) ''settings'')))
                           (oprops (getProp d ''settings''))))
               (AList.update ''weeklyPlan'' (JObj ?plan)
               (spread (spread [] (ownProps (defaults w))) (ownProps d)))"
  have "\<forall>(k, v)\<in>set (defaultPlan w). E k v"
    using assms(1) by (simp add: good_def entriesOk_def)
  moreover have "\<forall>(k, v)\<in>set (oprops (getProp d ''weeklyPlan'')). E k v"
    using assms(2) d(1) by simp
  ultimately have "\<forall>(k, v)\<in>set ?plan. E k v"
    by (auto dest!: entry_spread)
  then have "good E (snd (saveData (JObj ?kvs) w))"
    using assms(1) by (intro good_saved) (simp_all add: update_conv')
  moreover have "snd (importData f w) = snd (saveData (JObj ?kvs) w)"
    using d by (simp add: importData_def defaultPlan_def Let_def split: prod.splits bool.splits)
  ultimately show ?thesis
    by simp
qed

lemma good_perform:
  assumes "good E w" and "admits E a"
  shows "good E (perform a w)"
  using assms
  by (cases a)
     (simp_all add: good_addMealToDay good_removeMealFromDay good_clearDay good_clearWeek
        good_importData)

lemma good_runActions:
  "good E w \<Longrightarrow> list_all (admits E) acts \<Longrightarrow> good E (runActions acts w)"
  unfolding runActions_def
  by (induction acts arbitrary: w) (simp_all add: good_perform)

lemma planBase_perform: "planBase w \<Longrightarrow> planBase (perform a w)"
  using good_perform [of "\<lambda>k v. True" w a]
  by (cases a) (simp_all add: good_def entriesOk_def)

lemma planBase_runActions: "planBase w \<Longrightarrow> planBase (runActions acts w)"
  unfolding runActions_def
  by (induction acts arbitrary: w) (simp_all add: planBase_perform)

lemma planBase_freshPage: "planBase (freshPage st acc)"
  by (simp add: planBase_def freshPage_def defaultData_def defaultWeeklyPlan_def DAYS_def)

text \<open>A new page: the entries of the plan are the empty lists of the seven days and the
  entries of the stored plan.\<close>

lemma good_freshPage:
  assumes "\<forall>day\<in>set DAYS. E day (JArr [])" and "\<forall>(k, v)\<in>set (planOf st). E k v"
  shows "good E (freshPage st acc)"
proof -
  have "\<forall>(k, v)\<in>set (defaultPlan (freshPage st acc)). E k v"
    using assms(1)
    by (simp add: defaultPlan_def freshPage_def defaultData_def defaultWeeklyPlan_def DAYS_def)
  moreover have "\<forall>(k, v)\<in>set (oprops (getProp d ''weeklyPlan'')). E k v"
    if "parsedDoc (freshPage st acc) = Some d" for d
  proof -
    have "st = Some (Parsed d)"
      using that
      by (auto simp: parsedDoc_def freshPage_def split: option.splits stored.splits if_splits)
    then show ?thesis
      using assms(2) by simp
  qed
  ultimately show ?thesis
    using planBase_freshPage [of st acc] by (simp add: good_def entriesOk_def)
qed

text \<open>The plan left in the store has the property of the entries.\<close>

lemma good_stored:
  assumes "good E w"
  shows "\<forall>(k, v)\<in>set (planOf (item w)). E k v"
proof (cases "parsedDoc w")
  case None
  then have "planOf (item w) = []"
    by (auto simp: parsedDoc_def getProp_def split: option.splits stored.splits if_splits)
  then show ?thesis
    by simp
next
  case (Some d)
  then have "item w = Some (Parsed d)"
    by (auto simp: parsedDoc_def split: option.splits stored.splits if_splits)
  then show ?thesis
    using assms Some by (simp add: good_def entriesOk_def)
qed

text \<open>
  Over a store that takes no write the plan read stays \<^verbatim>\<open>defaultData.weeklyPlan\<close>.  Once
  \<^verbatim>\<open>clearDay('__proto__')\<close> has made an array its prototype, the plan inherits the array
  methods: \<^verbatim>\<open>addMealToDay('push', 'm1')\<close> throws, where on a new page it adds the key
  \<^verbatim>\<open>push\<close>, and \<^verbatim>\<open>addMealToDay('__proto__', 'm1')\<close> pushes the id to that array.
\<close>

lemma plan_inherits_from_array:
  "fst (addMealToDay ''push'' ''m1''
          (clearDay ''__proto__'' (freshPage None (\<lambda>d. QuotaExceeded)))) = Inl TypeError"
  "fst (addMealToDay ''push'' ''m1'' (freshPage None (\<lambda>d. QuotaExceeded))) = Inr True"
  "fst (addMealToDay ''__proto__'' ''m1''
          (clearDay ''__proto__'' (freshPage None (\<lambda>d. QuotaExceeded)))) = Inr True"
  "planProto (snd (addMealToDay ''__proto__'' ''m1''
          (clearDay ''__proto__'' (freshPage None (\<lambda>d. QuotaExceeded))))) = Some [''m1'']"
  by (simp_all add: model_defs clearDay_def addMealToDay_def arrayPrototypeKeys_def)

lemma admits_noRepeats: "importsRepeatFree a \<Longrightarrow> admits (\<lambda>k v. noRepeats v) a"
  by (cases a) (auto simp: repeatFree_def list_all_iff)

lemma admits_onDays: "onDays a \<Longrightarrow> admits (\<lambda>k v. k \<in> set DAYS) a"
  by (cases a) (auto simp: onDayKeys_def list_all_iff)

lemma addMealToDay_refuses:
  "getProp (getWeeklyPlan w) day = Some (JArr xs) \<Longrightarrow> JStr mealId \<in> set xs \<Longrightarrow>
     addMealToDay day mealId w = (Inr False, w)"
  by (simp add: addMealToDay_def planGet_def Let_def)

text \<open>
  C5, amended.  After any sequence of loads, \<^verbatim>\<open>addMealToDay\<close>, \<^verbatim>\<open>removeMealFromDay\<close>,
  \<^verbatim>\<open>clearDay\<close>, \<^verbatim>\<open>clearWeek\<close> and imports on a new page, over any content of the store, the
  merged plan is an object with one entry per key that holds the seven day keys.  When the
  plan stored at the start and the plan of every file imported hold only lists in which no
  id occurs twice, every entry of the merged plan is such a list, and so is every entry of
  the plan the sequence leaves in the store, for the next page to start from.  When their
  keys are day names and every day passed to the functions is one of the seven, the keys of
  the merged plan are exactly the seven, and those of the plan left in the store are day
  names.  In every state, \<^verbatim>\<open>addMealToDay\<close> on a day whose list holds the id returns
  \<^verbatim>\<open>false\<close> and changes nothing.
\<close>

theorem C5_weekly_plan_amended:
  "(\<exists>plan. getWeeklyPlan (runActions acts (freshPage st acc)) = JObj plan
       \<and> distinct (map fst plan) \<and> set DAYS \<subseteq> fst ` set plan
       \<and> (list_all importsRepeatFree acts \<and> repeatFree (planOf st)
            \<longrightarrow> list_all noRepeats (map snd plan)
                \<and> repeatFree (planOf (item (runActions acts (freshPage st acc)))))
       \<and> (list_all onDays acts \<and> onDayKeys (planOf st)
            \<longrightarrow> fst ` set plan = set DAYS
                \<and> onDayKeys (planOf (item (runActions acts (freshPage st acc))))))
   \<and> (\<forall>w day mealId xs. getProp (getWeeklyPlan w) day = Some (JArr xs) \<and> JStr mealId \<in> set xs
         \<longrightarrow> addMealToDay day mealId w = (Inr False, w))"
proof -
  let ?w = "runActions acts (freshPage st acc)"
  have b: "planBase ?w"
    by (simp add: planBase_runActions planBase_freshPage)
  have 1: "getWeeklyPlan ?w = JObj (mergedPlan ?w)"
    using b by (rule getWeeklyPlan_merged)
  have 2: "list_all noRepeats (map snd (mergedPlan ?w)) \<and> repeatFree (planOf (item ?w))"
    if "list_all importsRepeatFree acts" "repeatFree (planOf st)"
  proof -
    have "good (\<lambda>k v. noRepeats v) ?w"
      using that
      by (intro good_runActions good_freshPage)
         (auto simp: list_all_iff admits_noRepeats repeatFree_def)
    then show ?thesis
      using mergedPlan_entries [of "\<lambda>k v. noRepeats v" ?w] good_stored [of "\<lambda>k v. noRepeats v" ?w]
      by (auto simp: good_def list_all_iff repeatFree_def)
  qed
  have 3: "fst ` set (mergedPlan ?w) = set DAYS \<and> onDayKeys (planOf (item ?w))"
    if "list_all onDays acts" "onDayKeys (planOf st)"
  proof -
    have g: "good (\<lambda>k v. k \<in> set DAYS) ?w"
      using that
      by (intro good_runActions good_freshPage)
         (auto simp: list_all_iff admits_onDays onDayKeys_def)
    then have "fst ` set (mergedPlan ?w) \<subseteq> set DAYS"
      using mergedPlan_entries [of "\<lambda>k v. k \<in> set DAYS" ?w]
      by (auto simp: good_def)
    then show ?thesis
      using mergedPlan_keys(2) [OF b] good_stored [OF g]
      by (auto simp: onDayKeys_def list_all_iff)
  qed
  show ?thesis
    using 1 2 3 mergedPlan_keys [OF b] addMealToDay_refuses by auto
qed

lemma import_step:
  "snd (importData (Content (Parsed (JObj [(''weeklyPlan'',
          JObj [(''Monday'', JArr [JStr ''m1'', JStr ''m1'']), (''Funday'', JArr [])])])))
       (freshPage None accepting))
   = \<lparr>item = Some (Parsed (JObj
        [(''meals'', JArr []),
         (''weeklyPlan'', JObj [(''Monday'', JArr [JStr ''m1'', JStr ''m1'']), (''Tuesday'', JArr []),
             (''Wednesday'', JArr []), (''Thursday'', JArr []), (''Friday'', JArr []),
             (''Saturday'', JArr []), (''Sunday'', JArr []), (''Funday'', JArr [])]),
         (''shoppingList'', JArr []), (''householdItems'', JArr []), (''cleaningTasks'', JArr []),
         (''maintenanceTasks'', JArr []), (''settings'', defaultSettings)])),
      defaults = defaultData, setItem = accepting,
      events = [SetItem (JObj
        [(''meals'', JArr []),
         (''weeklyPlan'', JObj [(''Monday'', JArr [JStr ''m1'', JStr ''m1'']), (''Tuesday'', JArr []),
             (''Wednesday'', JArr []), (''Thursday'', JArr []), (''Friday'', JArr []),
             (''Saturday'', JArr []), (''Sunday'', JArr []), (''Funday'', JArr [])]),
         (''shoppingList'', JArr []), (''householdItems'', JArr []), (''cleaningTasks'', JArr []),
         (''maintenanceTasks'', JArr []), (''settings'', defaultSettings)])],
      planProto = None\<rparr>"
  by (simp add: importData_def freshPage_def saveData_def accepting_def defaultData_def
        defaultWeeklyPlan_def defaultSettings_def spread_def Let_def)

text \<open>
  C5 as stated fails: an import stores the plan of the file as it is.  After importing, on
  a new page over an empty store, a document whose plan names Monday with the id \<^verbatim>\<open>m1\<close>
  twice and a day \<^verbatim>\<open>Funday\<close>, the merged plan has eight keys and Monday holds \<^verbatim>\<open>m1\<close>
  twice.
\<close>

theorem C5_weekly_plan_counterexample:
  "getWeeklyPlan (runActions
       [Import (Content (Parsed (JObj [(''weeklyPlan'',
          JObj [(''Monday'', JArr [JStr ''m1'', JStr ''m1'']), (''Funday'', JArr [])])])))]
       (freshPage None accepting))
     = JObj [(''Monday'', JArr [JStr ''m1'', JStr ''m1'']), (''Tuesday'', JArr []),
             (''Wednesday'', JArr []), (''Thursday'', JArr []), (''Friday'', JArr []),
             (''Saturday'', JArr []), (''Sunday'', JArr []), (''Funday'', JArr [])]
   \<and> \<not> noRepeats (JArr [JStr ''m1'', JStr ''m1''])
   \<and> ''Funday'' \<notin> set DAYS"
  by (simp add: runActions_def import_step getWeeklyPlan_def getData_def loadData_def parsedDoc_def
        defaultData_def defaultWeeklyPlan_def defaultSettings_def spread_def DAYS_def)

lemma add_step:
  "runActions [AddMealToDay ''Monday'' ''m1''] (freshPage (Some (Parsed defaultData)) accepting)
   = \<lparr>item = Some (Parsed (JObj
        [(''meals'', JArr []), (''weeklyPlan'', mondayPlan),
         (''shoppingList'', JArr []), (''householdItems'', JArr []), (''cleaningTasks'', JArr []),
         (''maintenanceTasks'', JArr []), (''settings'', defaultSettings)])),
      defaults = defaultData,
      setItem = accepting,
      events = [SetItem (JObj
        [(''meals'', JArr []), (''weeklyPlan'', mondayPlan),
         (''shoppingList'', JArr []), (''householdItems'', JArr []), (''cleaningTasks'', JArr []),
         (''maintenanceTasks'', JArr []), (''settings'', defaultSettings)]),
        Success ''Meal added to Monday!''],
      planProto = None\<rparr>"
  by (simp add: runActions_def model_defs addMealToDay_def mondayPlan_def)

lemma plan_after_add:
  "getWeeklyPlan (runActions [AddMealToDay ''Monday'' ''m1'']
      (freshPage (Some (Parsed defaultData)) accepting)) = mondayPlan"
  unfolding add_step
  by (simp add: getWeeklyPlan_def getData_def loadData_def parsedDoc_def mondayPlan_def
        defaultData_def defaultWeeklyPlan_def defaultSettings_def spread_def)

lemma stored_after_add:
  "planOf (item (runActions [AddMealToDay ''Monday'' ''m1'']
      (freshPage (Some (Parsed defaultData)) accepting))) = ownProps mondayPlan"
  unfolding add_step by (simp add: mondayPlan_def)

theorem C5_weekly_plan_witness:
  "list_all importsRepeatFree [AddMealToDay ''Monday'' ''m1'']
   \<and> repeatFree (planOf (Some (Parsed defaultData)))
   \<and> list_all onDays [AddMealToDay ''Monday'' ''m1'']
   \<and> onDayKeys (planOf (Some (Parsed defaultData)))
   \<and> getWeeklyPlan (runActions [AddMealToDay ''Monday'' ''m1'']
        (freshPage (Some (Parsed defaultData)) accepting)) = mondayPlan
   \<and> list_all noRepeats (map snd (ownProps mondayPlan))
   \<and> repeatFree (ownProps mondayPlan)
   \<and> fst ` set (ownProps mondayPlan) = set DAYS
   \<and> onDayKeys (ownProps mondayPlan)
   \<and> getProp mondayPlan ''Monday'' = Some (JArr [JStr ''m1''])
   \<and> addMealToDay ''Monday'' ''m1'' (runActions [AddMealToDay ''Monday'' ''m1'']
          (freshPage (Some (Parsed defaultData)) accepting))
       = (Inr False, runActions [AddMealToDay ''Monday'' ''m1'']
          (freshPage (Some (Parsed defaultData)) accepting))"
proof -
  let ?w = "runActions [AddMealToDay ''Monday'' ''m1''] (freshPage (Some (Parsed defaultData)) accepting)"
  have h: "list_all importsRepeatFree [AddMealToDay ''Monday'' ''m1'']"
      "repeatFree (planOf (Some (Parsed defaultData)))"
      "list_all onDays [AddMealToDay ''Monday'' ''m1'']"
      "onDayKeys (planOf (Some (Parsed defaultData)))"
    by (simp_all add: DAYS_def repeatFree_def onDayKeys_def defaultData_def defaultWeeklyPlan_def)
  have m: "getProp mondayPlan ''Monday'' = Some (JArr [JStr ''m1''])"
    by (simp add: mondayPlan_def)
  from C5_weekly_plan_amended [of "[AddMealToDay ''Monday'' ''m1'']" "Some (Parsed defaultData)" accepting] h
  have a: "list_all noRepeats (map snd (ownProps mondayPlan))" "repeatFree (ownProps mondayPlan)"
      "fst ` set (ownProps mondayPlan) = set DAYS" "onDayKeys (ownProps mondayPlan)"
    and r: "\<And>w day mealId xs. getProp (getWeeklyPlan w) day = Some (JArr xs) \<Longrightarrow> JStr mealId \<in> set xs
         \<Longrightarrow> addMealToDay day mealId w = (Inr False, w)"
    unfolding plan_after_add stored_after_add mondayPlan_def by auto
  have "addMealToDay ''Monday'' ''m1'' ?w = (Inr False, ?w)"
    by (rule r [where xs = "[JStr ''m1'']"]) (simp_all add: plan_after_add m)
  then show ?thesis
    using h a m plan_after_add by simp
qed

subsection \<open>C7: the shopping list from the meal plan\<close>








lemma showSuccess_fields [simp]:
  "parsedDoc (showSuccess m w) = parsedDoc w" "defaults (showSuccess m w) = defaults w"
  "setItem (showSuccess m w) = setItem w"
  by (simp_all add: showSuccess_def parsedDoc_def)

lemma loadData_showSuccess [simp]: "loadData (showSuccess m w) = loadData w"
  by (cases "parsedDoc w") (simp_all add: loadData_def)

lemma getData_showSuccess [simp]: "getData s (showSuccess m w) = getData s w"
  by (simp add: getData_def)






text \<open>A write into one section of \<^verbatim>\<open>defaultData\<close> leaves what is read of the other
  sections.\<close>

lemma mutated_fields [simp]:
  "parsedDoc (mutated k v w) = parsedDoc w" "setItem (mutated k v w) = setItem w"
  by (simp_all add: mutated_def writeDefault_def parsedDoc_def)



lemma parsedDoc_writeDefault [simp]: "parsedDoc (writeDefault k v w) = parsedDoc w"
  by (simp add: writeDefault_def parsedDoc_def)




lemma planBase_showSuccess [simp]: "planBase (showSuccess m w) = planBase w"
  by (simp add: planBase_def)















































end
